theory Spec2Isabelle
  imports Main
begin

section \<open>Python values and the string operations the generator uses\<close>

text \<open>
  The generator \<^verbatim>\<open>generate_nsis_script_from_config\<close> of
  \<^verbatim>\<open>nsis-script-generator.py\<close> takes a dictionary \<^verbatim>\<open>config\<close> and builds a second
  dictionary \<^verbatim>\<open>context\<close> that is substituted into \<^verbatim>\<open>NSI_TEMPLATE\<close>.
  A dictionary is a map from key strings to Python values. The values are the ones the
  script stores: \<^verbatim>\<open>None\<close>, booleans, integers, strings and lists.
  A string is a list of characters with code points 0 to 255.
\<close>

datatype pyval = PNone | PBool bool | PInt int | PStr string | PList "pyval list"

type_synonym pydict = "string \<rightharpoonup> pyval"

datatype exn = KeyError string | AttributeError | TypeError | ValueError | OSError

abbreviation BS :: string where "BS \<equiv> [CHR 0x5C]"

text \<open>Truth value of an object in a condition.\<close>

fun truthy :: "pyval \<Rightarrow> bool" where
  "truthy PNone = False"
| "truthy (PBool b) = b"
| "truthy (PInt i) = (i \<noteq> 0)"
| "truthy (PStr s) = (s \<noteq> [])"
| "truthy (PList xs) = (xs \<noteq> [])"

text \<open>\<^verbatim>\<open>sep.join(lines)\<close>\<close>

fun join :: "string \<Rightarrow> string list \<Rightarrow> string" where
  "join sep [] = []"
| "join sep [x] = x"
| "join sep (x # y # ys) = x @ sep @ join sep (y # ys)"

text \<open>\<^verbatim>\<open>str(n)\<close> for a natural number, and for an integer.\<close>

fun string_of_nat :: "nat \<Rightarrow> string" where
  "string_of_nat n =
     (if n < 10 then [''0123456789'' ! n]
      else string_of_nat (n div 10) @ [''0123456789'' ! (n mod 10)])"

declare string_of_nat.simps [simp del]

definition string_of_int :: "int \<Rightarrow> string" where
  "string_of_int i = (if i < 0 then ''-'' @ string_of_nat (nat (- i)) else string_of_nat (nat i))"

text \<open>
  \<^verbatim>\<open>repr(s)\<close> of a string: single quotes unless the string has a single quote and no
  double quote; the quote and the backslash are escaped, tab, newline and carriage return
  have their letters, every other character that is not printable is written
  \<^verbatim>\<open>\xhh\<close>.
\<close>

definition printable :: "char \<Rightarrow> bool" where
  "printable c = (let n = of_char c :: nat in
     (32 \<le> n \<and> n < 127) \<or> (161 \<le> n \<and> n \<noteq> 173))"

definition hex2 :: "char \<Rightarrow> string" where
  "hex2 c = (let n = of_char c :: nat in
     [''0123456789abcdef'' ! (n div 16), ''0123456789abcdef'' ! (n mod 16)])"

definition repr_char :: "char \<Rightarrow> char \<Rightarrow> string" where
  "repr_char quote c =
     (if c = quote \<or> c = CHR 0x5C then [CHR 0x5C, c]
      else if c = CHR 0x09 then BS @ ''t''
      else if c = CHR 0x0A then BS @ ''n''
      else if c = CHR 0x0D then BS @ ''r''
      else if printable c then [c]
      else BS @ ''x'' @ hex2 c)"

definition repr_str :: "string \<Rightarrow> string" where
  "repr_str s =
     (let quote = (if CHR 0x27 \<in> set s \<and> CHR 0x22 \<notin> set s then CHR 0x22 else CHR 0x27)
      in [quote] @ concat (map (repr_char quote) s) @ [quote])"

text \<open>\<^verbatim>\<open>repr(v)\<close> and \<^verbatim>\<open>str(v)\<close>; they differ on strings only.\<close>

fun py_repr :: "pyval \<Rightarrow> string" where
  "py_repr PNone = ''None''"
| "py_repr (PBool b) = (if b then ''True'' else ''False'')"
| "py_repr (PInt i) = string_of_int i"
| "py_repr (PStr s) = repr_str s"
| "py_repr (PList xs) = ''['' @ join '', '' (map py_repr xs) @ '']''"

definition py_str :: "pyval \<Rightarrow> string" where
  "py_str v = (case v of PStr s \<Rightarrow> s | _ \<Rightarrow> py_repr v)"

text \<open>
  \<^verbatim>\<open>str\<close> and \<^verbatim>\<open>repr\<close> do not write an integer of more than 4300 digits: they raise
  \<^verbatim>\<open>ValueError\<close>. \<open>writable v\<close> says that \<open>v\<close> has no such integer in it, so that
  \<^verbatim>\<open>str(v)\<close> returns, and returns \<open>py_str v\<close>.
\<close>

fun writable :: "pyval \<Rightarrow> bool" where
  "writable (PInt i) = (length (string_of_nat (nat \<bar>i\<bar>)) \<le> 4300)"
| "writable (PList xs) = list_all writable xs"
| "writable v = True"

text \<open>\<^verbatim>\<open>s.lower()\<close>: the letters A to Z and the capital letters of Latin-1.\<close>

definition lower_char :: "char \<Rightarrow> char" where
  "lower_char c = (let n = of_char c :: nat in
     if (65 \<le> n \<and> n \<le> 90) \<or> (192 \<le> n \<and> n \<le> 222 \<and> n \<noteq> 215)
     then char_of (n + 32) else c)"

definition lower :: "string \<Rightarrow> string" where
  "lower s = map lower_char s"

text \<open>\<^verbatim>\<open>s.replace(old, new)\<close> where \<^verbatim>\<open>old\<close> is one character.\<close>

definition replace_char :: "char \<Rightarrow> string \<Rightarrow> string \<Rightarrow> string" where
  "replace_char old new s = concat (map (\<lambda>c. if c = old then new else [c]) s)"

text \<open>\<^verbatim>\<open>s.endswith(suffix)\<close>\<close>

definition endswith :: "string \<Rightarrow> string \<Rightarrow> bool" where
  "endswith s suf = (length suf \<le> length s \<and> drop (length s - length suf) s = suf)"

text \<open>
  A method of \<^verbatim>\<open>str\<close> called on a value: any other value has no such attribute.
\<close>

definition str_method :: "(string \<Rightarrow> string) \<Rightarrow> pyval \<Rightarrow> exn + string" where
  "str_method f v = (case v of PStr s \<Rightarrow> Inr (f s) | _ \<Rightarrow> Inl AttributeError)"

text \<open>\<^verbatim>\<open>for x in v\<close>: a list gives its elements, a string its characters.\<close>

definition py_iter :: "pyval \<Rightarrow> exn + pyval list" where
  "py_iter v = (case v of PList xs \<Rightarrow> Inr xs
                | PStr s \<Rightarrow> Inr (map (\<lambda>c. PStr [c]) s)
                | _ \<Rightarrow> Inl TypeError)"

text \<open>\<^verbatim>\<open>config.get(key, default)\<close>, \<^verbatim>\<open>config.get(key)\<close> and \<^verbatim>\<open>config[key]\<close>.\<close>

definition dict_get :: "pydict \<Rightarrow> string \<Rightarrow> pyval \<Rightarrow> pyval" where
  "dict_get d k dflt = (case d k of None \<Rightarrow> dflt | Some v \<Rightarrow> v)"

definition dict_index :: "pydict \<Rightarrow> string \<Rightarrow> exn + pyval" where
  "dict_index d k = (case d k of None \<Rightarrow> Inl (KeyError k) | Some v \<Rightarrow> Inr v)"

section \<open>The environment\<close>

text \<open>
  The generator reads the clock twice and asks the file system about the license file
  and the icons. \<open>generation_date\<close> is what
  \<^verbatim>\<open>datetime.datetime.now().strftime('%Y-%m-%d %H:%M:%S')\<close> returns at line 326,
  \<open>current_year\<close> what \<^verbatim>\<open>datetime.datetime.now().year\<close> returns at line 327,
  \<open>path_exists\<close> is \<^verbatim>\<open>os.path.exists\<close> and \<open>abspath\<close> is \<^verbatim>\<open>os.path.abspath\<close>;
  both may raise.
\<close>

record env =
  generation_date :: string
  current_year :: int
  path_exists :: "pyval \<Rightarrow> exn + bool"
  abspath :: "pyval \<Rightarrow> exn + string"

section \<open>The template\<close>

text \<open>
  \<^verbatim>\<open>NSI_TEMPLATE\<close> (lines 224 to 321) as the text between the replacement fields
  and the fields themselves, one source line per line.
\<close>

datatype segment = Lit string | Slot string

definition NSI_TEMPLATE :: "segment list" where
  \<open>NSI_TEMPLATE = [
    Lit (''\<newline>; NSIS script generated with NSIS Script Generator\<newline>''),
    Lit (''; '' @ [CHR 0xA9] @ '' ''), Slot ''current_year'', Lit ('' Thibault Savenkoff\<newline>''),
    Lit (''; Generated on: ''), Slot ''generation_date'', Lit (''\<newline>''),
    Lit (''\<newline>''),
    Lit (''!include MUI2.nsh\<newline>''),
    Lit (''\<newline>''),
    Lit (''; --- Application Info ---\<newline>''),
    Lit (''Name "''), Slot ''app_name'', Lit (''"\<newline>''),
    Lit (''OutFile "''), Slot ''output_installer_name'', Lit (''"\<newline>''),
    Lit (''InstallDir "''), Slot ''install_dir_base'', Lit (BS), Slot ''install_dir_name'', Lit (''"\<newline>''),
    Lit (''InstallDirRegKey ''), Slot ''adminregistry'', Lit ('' "''), Slot ''install_path_reg_key'', Lit (''" "Install_Dir"\<newline>''),
    Lit (''BrandingText "''), Slot ''branding'', Lit (''"\<newline>''),
    Lit (''\<newline>''),
    Lit (''; --- Version Information (for EXE properties) ---\<newline>''),
    Lit (''VIProductVersion "''), Slot ''product_version'', Lit (''"\<newline>''),
    Lit (''VIAddVersionKey "ProductName" "''), Slot ''app_name'', Lit (''"\<newline>''),
    Lit (''VIAddVersionKey "CompanyName" "''), Slot ''publisher'', Lit (''"\<newline>''),
    Lit (''VIAddVersionKey "LegalCopyright" "Copyright (c) ''), Slot ''current_year'', Lit ('' ''), Slot ''publisher'', Lit (''"\<newline>''),
    Lit (''VIAddVersionKey "FileDescription" "''), Slot ''app_name'', Lit ('' Installer"\<newline>''),
    Lit (''VIAddVersionKey "FileVersion" "''), Slot ''app_version'', Lit (''"\<newline>''),
    Lit (''VIAddVersionKey "ProductVersion" "''), Slot ''product_version'', Lit (''"\<newline>''),
    Lit (''\<newline>''),
    Lit (''; --- Interface Settings ---\<newline>''),
    Slot ''request_execution_level'', Lit (''\<newline>''),
    Slot ''set_compressor_command'', Lit (''\<newline>''),
    Lit (''\<newline>''),
    Lit (''; --- Variables ---\<newline>''),
    Lit (''Var StartMenuFolder\<newline>''),
    Lit (''\<newline>''),
    Lit (''; --- MUI Settings ---\<newline>''),
    Slot ''mui_defines'', Lit (''\<newline>''),
    Lit (''\<newline>''),
    Lit (''; --- Pages ---\<newline>''),
    Slot ''page_welcome'', Lit (''\<newline>''),
    Slot ''page_license'', Lit (''\<newline>''),
    Slot ''page_directory'', Lit (''\<newline>''),
    Lit (''!insertmacro MUI_PAGE_INSTFILES\<newline>''),
    Slot ''page_finish'', Lit (''\<newline>''),
    Lit (''\<newline>''),
    Lit (''; --- Uninstaller Pages ---\<newline>''),
    Lit (''!insertmacro MUI_UNPAGE_CONFIRM\<newline>''),
    Lit (''!insertmacro MUI_UNPAGE_INSTFILES\<newline>''),
    Lit (''\<newline>''),
    Lit (''; --- Language Settings ---\<newline>''),
    Lit (''; NSIS will show a language selection dialog if multiple languages are loaded.\<newline>''),
    Slot ''language_macros'', Lit (''\<newline>''),
    Lit (''\<newline>''),
    Lit (''; --- Functions ---\<newline>''),
    Lit (''Function .onInit\<newline>''),
    Lit (''  ; Set Start Menu Folder variable\<newline>''),
    Lit (''  StrCpy $StartMenuFolder "''), Slot ''start_menu_folder'', Lit (''"\<newline>''),
    Lit (''FunctionEnd\<newline>''),
    Lit (''\<newline>''),
    Lit (''; --- Installation Section ---\<newline>''),
    Lit (''Section "Install" SecInstall\<newline>''),
    Lit (''  SetOutPath $INSTDIR\<newline>''),
    Lit (''  SetOverwrite ifnewer\<newline>''),
    Lit (''\<newline>''),
    Lit (''  ; --- Files ---\<newline>''),
    Lit (''  ; NSIS uses backslashes in paths within the script\<newline>''),
    Lit (''  File /r "''), Slot ''source_dir_nsis'', Lit (BS @ ''*.*"\<newline>''),
    Lit (''\<newline>''),
    Lit (''  ; --- Registry ---\<newline>''),
    Lit (''  WriteRegStr ''), Slot ''adminregistry'', Lit ('' "''), Slot ''install_path_reg_key'', Lit (''" "Install_Dir" "$INSTDIR"\<newline>''),
    Lit (''  WriteRegStr ''), Slot ''adminregistry'', Lit ('' "''), Slot ''uninstall_reg_key'', Lit (''" "DisplayName" "''), Slot ''app_name'', Lit ('' (remove only)"\<newline>''),
    Lit (''  WriteRegStr ''), Slot ''adminregistry'', Lit ('' "''), Slot ''uninstall_reg_key'', Lit (''" "UninstallString" \'"$INSTDIR'' @ BS @ ''uninstall.exe"\'\<newline>''),
    Lit (''  WriteRegStr ''), Slot ''adminregistry'', Lit ('' "''), Slot ''uninstall_reg_key'', Lit (''" "QuietUninstallString" \'"$INSTDIR'' @ BS @ ''uninstall.exe" /S\'\<newline>''),
    Lit (''  ''), Slot ''uninstall_icon_reg'', Lit (''\<newline>''),
    Lit (''  WriteRegStr ''), Slot ''adminregistry'', Lit ('' "''), Slot ''uninstall_reg_key'', Lit (''" "Publisher" "''), Slot ''publisher'', Lit (''"\<newline>''),
    Lit (''  WriteRegStr ''), Slot ''adminregistry'', Lit ('' "''), Slot ''uninstall_reg_key'', Lit (''" "DisplayVersion" "''), Slot ''app_version'', Lit (''"\<newline>''),
    Lit (''  WriteRegStr ''), Slot ''adminregistry'', Lit ('' "''), Slot ''uninstall_reg_key'', Lit (''" "URLInfoAbout" "''), Slot ''website'', Lit (''"\<newline>''),
    Lit (''  WriteRegDWORD ''), Slot ''adminregistry'', Lit ('' "''), Slot ''uninstall_reg_key'', Lit (''" "NoModify" 1\<newline>''),
    Lit (''  WriteRegDWORD ''), Slot ''adminregistry'', Lit ('' "''), Slot ''uninstall_reg_key'', Lit (''" "NoRepair" 1\<newline>''),
    Lit (''\<newline>''),
    Lit (''  ; --- Uninstaller ---\<newline>''),
    Lit (''  WriteUninstaller "$INSTDIR'' @ BS @ ''uninstall.exe"\<newline>''),
    Lit (''\<newline>''),
    Lit (''  ; --- Shortcuts ---\<newline>''),
    Slot ''create_shortcuts_block'', Lit (''\<newline>''),
    Lit (''\<newline>''),
    Lit (''SectionEnd\<newline>''),
    Lit (''\<newline>''),
    Lit (''; --- Uninstallation Section ---\<newline>''),
    Lit (''Section "Uninstall" SecUninstall\<newline>''),
    Lit (''  ; --- Remove Shortcuts ---\<newline>''),
    Slot ''remove_shortcuts_block'', Lit (''\<newline>''),
    Lit (''\<newline>''),
    Lit (''  ; --- Remove Files ---\<newline>''),
    Lit (''  Delete "$INSTDIR'' @ BS @ ''uninstall.exe"\<newline>''),
    Lit (''  RMDir /r "$INSTDIR"\<newline>''),
    Lit (''\<newline>''),
    Lit (''  ; --- Remove Registry Keys ---\<newline>''),
    Lit (''  DeleteRegKey ''), Slot ''adminregistry'', Lit ('' "''), Slot ''uninstall_reg_key'', Lit (''"\<newline>''),
    Lit (''  DeleteRegKey ''), Slot ''adminregistry'', Lit ('' "''), Slot ''install_path_reg_key'', Lit (''"\<newline>''),
    Lit (''\<newline>''),
    Lit (''SectionEnd\<newline>'')
  ]\<close>

text \<open>
  \<^verbatim>\<open>NSI_TEMPLATE.format(**context)\<close>: the fields are handled from left to right. A
  field that is not a key of \<open>context\<close> raises \<^verbatim>\<open>KeyError\<close> with its name; the value
  of a field is written as \<^verbatim>\<open>str\<close> writes it, which raises \<^verbatim>\<open>ValueError\<close> for a value
  that is not writable. The first field that raises ends the call.
\<close>

fun format_py :: "segment list \<Rightarrow> pydict \<Rightarrow> exn + string" where
  "format_py [] context = Inr []"
| "format_py (Lit s # segs) context =
     (case format_py segs context of Inl x \<Rightarrow> Inl x | Inr r \<Rightarrow> Inr (s @ r))"
| "format_py (Slot k # segs) context =
     (case context k of
        None \<Rightarrow> Inl (KeyError k)
      | Some v \<Rightarrow>
          if writable v
          then (case format_py segs context of Inl x \<Rightarrow> Inl x | Inr r \<Rightarrow> Inr (py_str v @ r))
          else Inl ValueError)"

section \<open>The generator\<close>

text \<open>
  What the generator prints: the debug line of line 333 with the value it shows, the
  warning of line 339, the two lines of the \<^verbatim>\<open>KeyError\<close> handler (lines 447 and 448)
  with the key the exception names, and the line of the handler of every other exception
  (line 451) with the exception.
\<close>

datatype log_line =
    DebugLanguagesSelected pyval
  | WarningNoLanguages
  | ErrorMissingKey string
  | ContextKeysAvailable
  | ErrorGenerating exn

text \<open>The call returns a string or \<^verbatim>\<open>None\<close>, or an exception leaves it.\<close>

datatype outcome = Returned "string option" | Raised exn

text \<open>Lines 331 to 340: the language macros, with what is printed on the way.\<close>

definition language_directive :: "pyval \<Rightarrow> string" where
  \<open>language_directive lang = ''!insertmacro MUI_LANGUAGE "'' @ py_str lang @ ''"''\<close>

definition lang_macros_lines :: "pydict \<Rightarrow> log_line list \<times> (exn + string list)" where
  \<open>lang_macros_lines config =
     (case config ''selected_languages'' of
        Some v \<Rightarrow>
          if truthy v then
            ([DebugLanguagesSelected v],
             case py_iter v of Inl x \<Rightarrow> Inl x | Inr langs \<Rightarrow> Inr (map language_directive langs))
          else ([WarningNoLanguages], Inr [''!insertmacro MUI_LANGUAGE "English"''])
      | None \<Rightarrow> ([WarningNoLanguages], Inr [''!insertmacro MUI_LANGUAGE "English"'']))\<close>

text \<open>Lines 345 to 347.\<close>

definition install_dir_base :: "pydict \<Rightarrow> string" where
  \<open>install_dir_base config =
     (if truthy (dict_get config ''prefer_64bit'' (PBool True)) \<and>
         truthy (dict_get config ''request_admin'' (PBool True))
      then ''$PROGRAMFILES64''
      else if truthy (dict_get config ''request_admin'' (PBool False)) then ''$PROGRAMFILES''
      else ''$LOCALAPPDATA'')\<close>

definition request_execution_level :: "pydict \<Rightarrow> string" where
  \<open>request_execution_level config =
     (if truthy (dict_get config ''request_admin'' (PBool True))
      then ''RequestExecutionLevel admin'' else ''RequestExecutionLevel user'')\<close>

definition adminregistry :: "pydict \<Rightarrow> string" where
  \<open>adminregistry config =
     (if truthy (dict_get config ''request_admin'' (PBool True)) then ''HKLM'' else ''HKCU'')\<close>

text \<open>Lines 350 to 352.\<close>

definition set_compressor_command :: "pydict \<Rightarrow> exn + string" where
  \<open>set_compressor_command config =
     (case str_method lower (dict_get config ''compression'' (PStr ''lzma'')) of
        Inl x \<Rightarrow> Inl x
      | Inr comp' \<Rightarrow>
          let solid = dict_get config ''solid_compression'' (PBool True)
          in Inr (''SetCompressor '' @ (if truthy solid then ''/SOLID '' else []) @ comp'))\<close>

text \<open>
  The condition \<^verbatim>\<open>config.get(key) and os.path.exists(config[key])\<close> of lines 356, 363,
  365, 367, 422 and 425.
\<close>

definition set_and_exists :: "env \<Rightarrow> pydict \<Rightarrow> string \<Rightarrow> exn + bool" where
  "set_and_exists e config key =
     (let v = dict_get config key PNone in if truthy v then path_exists e v else Inr False)"

text \<open>
  Lines 355 to 361: the license file. The result is the list \<^verbatim>\<open>mui_defines\<close> so far and
  the dictionary \<^verbatim>\<open>config\<close>, which line 361 writes to.
\<close>

definition license_defines :: "env \<Rightarrow> pydict \<Rightarrow> exn + (string list \<times> pydict)" where
  \<open>license_defines e config =
     (case set_and_exists e config ''license_file'' of
        Inl x \<Rightarrow> Inl x
      | Inr True \<Rightarrow>
          (case str_method lower (dict_get config ''license_file'' PNone) of
             Inl x \<Rightarrow> Inl x
           | Inr l \<Rightarrow>
               if endswith l ''.rtf''
               then Inr ([''!define MUI_ABORTWARNING'', ''!define MUI_LICENSEPAGE_CHECKBOX''], config)
               else Inr ([''!define MUI_ABORTWARNING''], config))
      | Inr False \<Rightarrow>
          Inr ([''!define MUI_ABORTWARNING''], config(''show_license_page'' \<mapsto> PBool False)))\<close>

text \<open>Lines 363 to 368: the icons.\<close>

definition icon_defines :: "env \<Rightarrow> pydict \<Rightarrow> exn + string list" where
  \<open>icon_defines e config =
     (case set_and_exists e config ''installer_icon'' of
        Inl x \<Rightarrow> Inl x
      | Inr inst \<Rightarrow>
          let icon = (if inst
                      then [''!define MUI_ICON "'' @ py_str (dict_get config ''installer_icon'' PNone) @ ''"'']
                      else [])
          in (case set_and_exists e config ''uninstaller_icon'' of
                Inl x \<Rightarrow> Inl x
              | Inr True \<Rightarrow>
                  Inr (icon @ [''!define MUI_UNICON "'' @ py_str (dict_get config ''uninstaller_icon'' PNone) @ ''"''])
              | Inr False \<Rightarrow>
                  (case set_and_exists e config ''installer_icon'' of
                     Inl x \<Rightarrow> Inl x
                   | Inr True \<Rightarrow>
                       Inr (icon @ [''!define MUI_UNICON "'' @ py_str (dict_get config ''installer_icon'' PNone) @ ''"''])
                   | Inr False \<Rightarrow> Inr icon)))\<close>

text \<open>Lines 372 to 376: the pages.\<close>

definition page_welcome :: "pydict \<Rightarrow> string" where
  \<open>page_welcome config =
     (if truthy (dict_get config ''show_welcome_page'' (PBool True))
      then ''!insertmacro MUI_PAGE_WELCOME'' else ''; Welcome page disabled'')\<close>

definition page_finish :: "pydict \<Rightarrow> string" where
  \<open>page_finish config =
     (if truthy (dict_get config ''show_finish_page'' (PBool True))
      then ''!insertmacro MUI_PAGE_FINISH'' else ''; Finish page disabled'')\<close>

definition page_directory :: "pydict \<Rightarrow> string" where
  \<open>page_directory config =
     (if truthy (dict_get config ''show_directory_page'' (PBool True))
      then ''!insertmacro MUI_PAGE_DIRECTORY'' else ''; Directory page disabled'')\<close>

definition page_license :: "pydict \<Rightarrow> string" where
  \<open>page_license config =
     (if truthy (dict_get config ''show_license_page'' (PBool False)) \<and>
         truthy (dict_get config ''license_file'' PNone)
      then ''!insertmacro MUI_PAGE_LICENSE "'' @ py_str (dict_get config ''license_file'' PNone) @ ''"''
      else ''; License page disabled or no file specified/found'')\<close>

text \<open>Line 382.\<close>

definition source_dir_nsis :: "pydict \<Rightarrow> exn + string" where
  \<open>source_dir_nsis config =
     (case dict_index config ''source_dir'' of
        Inl x \<Rightarrow> Inl x
      | Inr v \<Rightarrow> str_method (replace_char CHR ''/'' BS) v)\<close>

text \<open>Lines 385 to 416: the two shortcut blocks.\<close>

definition main_exe_path :: "pydict \<Rightarrow> string" where
  \<open>main_exe_path config =
     ''$INSTDIR'' @ BS @ py_str (dict_get config ''main_executable'' (PStr ''MissingExecutable.exe''))\<close>

definition sm_link :: "pydict \<Rightarrow> string" where
  \<open>sm_link config =
     ''$SMPROGRAMS'' @ BS @ ''$StartMenuFolder'' @ BS @
     py_str (dict_get config ''app_name'' (PStr ''MyApp'')) @ ''.lnk''\<close>

definition desktop_link :: "pydict \<Rightarrow> string" where
  \<open>desktop_link config =
     ''$DESKTOP'' @ BS @ py_str (dict_get config ''app_name'' (PStr ''MyApp'')) @ ''.lnk''\<close>

definition create_shortcut_lines :: "pydict \<Rightarrow> string list" where
  \<open>create_shortcut_lines config =
     (if truthy (dict_get config ''request_admin'' (PBool True))
      then [''  SetShellVarContext all ; Install for all users''] else []) @
     (if truthy (dict_get config ''create_startmenu_shortcut'' (PBool True))
      then [''  ; Create Start Menu Shortcuts'',
            ''  CreateDirectory "$SMPROGRAMS'' @ BS @ ''$StartMenuFolder"'',
            ''  CreateShortCut "'' @ sm_link config @ ''" "'' @ main_exe_path config @
              ''" "" "'' @ main_exe_path config @ ''" 0'']
      else []) @
     (if truthy (dict_get config ''create_desktop_shortcut'' (PBool True))
      then [''  ; Create Desktop Shortcut'',
            ''  CreateShortCut "'' @ desktop_link config @ ''" "'' @ main_exe_path config @
              ''" "" "'' @ main_exe_path config @ ''" 0'']
      else [])\<close>

definition remove_shortcut_lines :: "pydict \<Rightarrow> string list" where
  \<open>remove_shortcut_lines config =
     (if truthy (dict_get config ''request_admin'' (PBool True))
      then [''  SetShellVarContext all ; Remove for all users''] else []) @
     (if truthy (dict_get config ''create_startmenu_shortcut'' (PBool True))
      then [''  ; Remove Start Menu Shortcuts'',
            ''  Delete "'' @ sm_link config @ ''"'',
            ''  RMDir "$SMPROGRAMS'' @ BS @ ''$StartMenuFolder" ; Only removes if empty'']
      else []) @
     (if truthy (dict_get config ''create_desktop_shortcut'' (PBool True))
      then [''  ; Remove Desktop Shortcut'',
            ''  Delete "'' @ desktop_link config @ ''"'']
      else [])\<close>

definition shortcuts_block :: "string list \<Rightarrow> string" where
  \<open>shortcuts_block lines =
     (if lines \<noteq> [] then join ''\<newline>'' lines else ''  ; No shortcuts configured'')\<close>

text \<open>
  Lines 420 to 438: the registry entry of the uninstall icon. \<open>hive\<close> is
  \<^verbatim>\<open>context['adminregistry']\<close>, stored at line 347.
\<close>

definition uninst_icon_path_reg :: "env \<Rightarrow> pydict \<Rightarrow> exn + pyval" where
  \<open>uninst_icon_path_reg e config =
     (case set_and_exists e config ''uninstaller_icon'' of
        Inl x \<Rightarrow> Inl x
      | Inr True \<Rightarrow> Inr (dict_get config ''uninstaller_icon'' PNone)
      | Inr False \<Rightarrow>
          (case set_and_exists e config ''installer_icon'' of
             Inl x \<Rightarrow> Inl x
           | Inr True \<Rightarrow> Inr (dict_get config ''installer_icon'' PNone)
           | Inr False \<Rightarrow> Inr PNone))\<close>

text \<open>
  Lines 434 and 435, and 437 and 438: the entry that names the main executable;
  \<open>note\<close> is the comment that line 435 adds.
\<close>

definition main_exe_icon_reg :: "string \<Rightarrow> pydict \<Rightarrow> string \<Rightarrow> exn + string" where
  \<open>main_exe_icon_reg hive config note =
     (case str_method (replace_char CHR 0x5C (BS @ BS))
             (dict_get config ''main_executable'' (PStr ''?.exe'')) of
        Inl x \<Rightarrow> Inl x
      | Inr main_exe \<Rightarrow>
          (case dict_index config ''uninstall_reg_key'' of
             Inl x \<Rightarrow> Inl x
           | Inr key \<Rightarrow>
               Inr (''WriteRegStr '' @ hive @ '' "'' @ py_str key @ ''" "DisplayIcon" "$INSTDIR'' @
                    BS @ BS @ main_exe @ ''"'' @ note)))\<close>

text \<open>
  The \<^verbatim>\<open>try\<close> of lines 430 to 435 catches every exception of its body, the
  \<^verbatim>\<open>KeyError\<close> of \<^verbatim>\<open>config["uninstall_reg_key"]\<close> too.
\<close>

definition uninstall_icon_reg :: "env \<Rightarrow> string \<Rightarrow> pydict \<Rightarrow> exn + string" where
  \<open>uninstall_icon_reg e hive config =
     (case uninst_icon_path_reg e config of
        Inl x \<Rightarrow> Inl x
      | Inr icon \<Rightarrow>
          if truthy icon then
            (case abspath e icon of
               Inl x \<Rightarrow> main_exe_icon_reg hive config '' ; Default icon due to path issue''
             | Inr p \<Rightarrow>
                 (case dict_index config ''uninstall_reg_key'' of
                    Inl x \<Rightarrow> main_exe_icon_reg hive config '' ; Default icon due to path issue''
                  | Inr key \<Rightarrow>
                      Inr (''WriteRegStr '' @ hive @ '' "'' @ py_str key @ ''" "DisplayIcon" "'' @
                           replace_char CHR 0x5C (BS @ BS) p @ ''"'')))
          else main_exe_icon_reg hive config [])\<close>

text \<open>
  Lines 325 to 438: the dictionary \<^verbatim>\<open>context\<close>. The result also has the dictionary
  \<^verbatim>\<open>config\<close> as the call leaves it and what was printed.
\<close>

definition build_context :: "env \<Rightarrow> pydict \<Rightarrow> (exn + pydict) \<times> pydict \<times> log_line list" where
  \<open>build_context e config =
     (let context0 = [''generation_date'' \<mapsto> PStr (generation_date e),
                      ''current_year'' \<mapsto> PInt (current_year e)] ++ config;
          (printed, langs) = lang_macros_lines config
      in (case langs of
        Inl x \<Rightarrow> (Inl x, config, printed)
      | Inr lang_lines \<Rightarrow>
      (let context1 = context0
            (''language_macros'' \<mapsto> PStr (join ''\<newline>'' lang_lines),
             ''install_dir_base'' \<mapsto> PStr (install_dir_base config),
             ''request_execution_level'' \<mapsto> PStr (request_execution_level config),
             ''adminregistry'' \<mapsto> PStr (adminregistry config))
      in (case set_compressor_command config of
        Inl x \<Rightarrow> (Inl x, config, printed)
      | Inr compressor \<Rightarrow>
      (case license_defines e config of
        Inl x \<Rightarrow> (Inl x, config, printed)
      | Inr (defines, config1) \<Rightarrow>
      (case icon_defines e config1 of
        Inl x \<Rightarrow> (Inl x, config1, printed)
      | Inr icons \<Rightarrow>
      (let context2 = context1
            (''set_compressor_command'' \<mapsto> PStr compressor,
             ''mui_defines'' \<mapsto> PStr (join ''\<newline>'' (defines @ icons)),
             ''page_welcome'' \<mapsto> PStr (page_welcome config1),
             ''page_finish'' \<mapsto> PStr (page_finish config1),
             ''page_directory'' \<mapsto> PStr (page_directory config1),
             ''page_license'' \<mapsto> PStr (page_license config1))
      in (case dict_index config1 ''start_menu_folder'' of
        Inl x \<Rightarrow> (Inl x, config1, printed)
      | Inr folder \<Rightarrow>
      (case source_dir_nsis config1 of
        Inl x \<Rightarrow> (Inl x, config1, printed)
      | Inr source \<Rightarrow>
      (let context3 = context2
            (''start_menu_folder'' \<mapsto> folder,
             ''source_dir_nsis'' \<mapsto> PStr source,
             ''create_shortcuts_block'' \<mapsto> PStr (shortcuts_block (create_shortcut_lines config1)),
             ''remove_shortcuts_block'' \<mapsto> PStr (shortcuts_block (remove_shortcut_lines config1)))
      in (case uninstall_icon_reg e (py_str (dict_get context3 ''adminregistry'' PNone)) config1 of
        Inl x \<Rightarrow> (Inl x, config1, printed)
      | Inr entry \<Rightarrow>
          (Inr (context3(''uninstall_icon_reg'' \<mapsto> PStr entry)), config1, printed))))))))))))\<close>

text \<open>
  The function itself: lines 442 to 452 format the template. A \<^verbatim>\<open>KeyError\<close> of the
  formatting is printed with the two lines of its handler, every other exception of the
  formatting with the line of the second handler, and \<^verbatim>\<open>None\<close> is returned in both
  cases.
\<close>

definition generate_nsis_script_from_config ::
  "env \<Rightarrow> pydict \<Rightarrow> outcome \<times> pydict \<times> log_line list" where
  "generate_nsis_script_from_config e config =
     (case build_context e config of
        (Inl x, config', printed) \<Rightarrow> (Raised x, config', printed)
      | (Inr context, config', printed) \<Rightarrow>
          (case format_py NSI_TEMPLATE context of
             Inl (KeyError k) \<Rightarrow>
               (Returned None, config', printed @ [ErrorMissingKey k, ContextKeysAvailable])
           | Inl x \<Rightarrow> (Returned None, config', printed @ [ErrorGenerating x])
           | Inr final_script \<Rightarrow> (Returned (Some final_script), config', printed)))"

section \<open>Reading the script that the generator returns\<close>

text \<open>
  The text that a segment of the template contributes to the formatted script, and the
  names of the replacement fields of a template, from left to right.
\<close>

fun segment_text :: "pydict \<Rightarrow> segment \<Rightarrow> string" where
  "segment_text ctx (Lit s) = s"
| "segment_text ctx (Slot k) = (case ctx k of None \<Rightarrow> [] | Some v \<Rightarrow> py_str v)"

fun slot_names :: "segment list \<Rightarrow> string list" where
  "slot_names [] = []"
| "slot_names (Lit s # segs) = slot_names segs"
| "slot_names (Slot k # segs) = k # slot_names segs"

text \<open>The dictionary \<^verbatim>\<open>context\<close> that reaches line 444, if the call gets there.\<close>

definition context_of :: "env \<Rightarrow> pydict \<Rightarrow> pydict" where
  "context_of e config = (case fst (build_context e config) of Inl x \<Rightarrow> Map.empty | Inr ctx \<Rightarrow> ctx)"

text \<open>
  The same dictionary written out in terms of the values that lines 330 to 438 compute.
\<close>

definition final_context ::
  "env \<Rightarrow> pydict \<Rightarrow> string list \<Rightarrow> string \<Rightarrow> string list \<Rightarrow> pydict \<Rightarrow> string list \<Rightarrow>
   pyval \<Rightarrow> string \<Rightarrow> string \<Rightarrow> pydict" where
  \<open>final_context e config lang_lines compressor defines config1 icons folder source entry =
     ([''generation_date'' \<mapsto> PStr (generation_date e),
       ''current_year'' \<mapsto> PInt (current_year e)] ++ config)
     (''language_macros'' \<mapsto> PStr (join ''\<newline>'' lang_lines),
      ''install_dir_base'' \<mapsto> PStr (install_dir_base config),
      ''request_execution_level'' \<mapsto> PStr (request_execution_level config),
      ''adminregistry'' \<mapsto> PStr (adminregistry config),
      ''set_compressor_command'' \<mapsto> PStr compressor,
      ''mui_defines'' \<mapsto> PStr (join ''\<newline>'' (defines @ icons)),
      ''page_welcome'' \<mapsto> PStr (page_welcome config1),
      ''page_finish'' \<mapsto> PStr (page_finish config1),
      ''page_directory'' \<mapsto> PStr (page_directory config1),
      ''page_license'' \<mapsto> PStr (page_license config1),
      ''start_menu_folder'' \<mapsto> folder,
      ''source_dir_nsis'' \<mapsto> PStr source,
      ''create_shortcuts_block'' \<mapsto> PStr (shortcuts_block (create_shortcut_lines config1)),
      ''remove_shortcuts_block'' \<mapsto> PStr (shortcuts_block (remove_shortcut_lines config1)),
      ''uninstall_icon_reg'' \<mapsto> PStr entry)\<close>

text \<open>
  The replacement fields that line 328 fills from \<^verbatim>\<open>config\<close>, and the ones that
  lines 326 to 438 fill.
\<close>

definition config_slots :: "string list" where
  "config_slots = [''app_name'', ''output_installer_name'', ''install_dir_name'',
     ''install_path_reg_key'', ''branding'', ''product_version'', ''publisher'', ''app_version'',
     ''website'', ''uninstall_reg_key'']"

definition derived_slots :: "string list" where
  "derived_slots = [''current_year'', ''generation_date'', ''language_macros'',
     ''install_dir_base'', ''request_execution_level'', ''adminregistry'',
     ''set_compressor_command'', ''mui_defines'', ''page_welcome'', ''page_finish'',
     ''page_directory'', ''page_license'', ''start_menu_folder'', ''source_dir_nsis'',
     ''create_shortcuts_block'', ''remove_shortcuts_block'', ''uninstall_icon_reg'']"

text \<open>
  The registry statements of a template. A statement is a piece of literal text that
  starts, after its indentation, with one of the four registry commands; its hive is what
  follows the command: the next segment when the literal text ends with the command, the
  rest of the literal text otherwise.
\<close>

definition registry_commands :: "string list" where
  "registry_commands = [''InstallDirRegKey '', ''WriteRegStr '', ''WriteRegDWORD '', ''DeleteRegKey '']"

fun strip_prefix :: "string \<Rightarrow> string \<Rightarrow> string option" where
  "strip_prefix [] s = Some s"
| "strip_prefix (c # cs) [] = None"
| "strip_prefix (c # cs) (d # ds) = (if c = d then strip_prefix cs ds else None)"

fun after_command :: "string list \<Rightarrow> string \<Rightarrow> string option" where
  "after_command [] l = None"
| "after_command (c # cs) l =
     (case strip_prefix c l of Some r \<Rightarrow> Some r | None \<Rightarrow> after_command cs l)"

fun registry_hives :: "segment list \<Rightarrow> segment list" where
  "registry_hives [] = []"
| "registry_hives (Slot k # segs) = registry_hives segs"
| "registry_hives (Lit l # segs) =
     (case after_command registry_commands (dropWhile (\<lambda>c. c = CHR '' '') l) of
        None \<Rightarrow> []
      | Some r \<Rightarrow> [if r = [] then (case segs of [] \<Rightarrow> Lit [] | seg # _ \<Rightarrow> seg) else Lit r])
     @ registry_hives segs"

text \<open>
  A configuration as lines 465 to 661 collect it: every key is there, with a string, a
  boolean, the name of the main executable or \<^verbatim>\<open>None\<close>, and a list of languages that
  is not empty. \<open>derivation_keys\<close> are the keys with a string that lines 330 to 438 read
  in a way that can raise.
\<close>

definition str_keys :: "string list" where
  "str_keys = [''app_name'', ''app_version'', ''product_version'', ''publisher'', ''website'',
     ''source_dir'', ''license_file'', ''installer_icon'', ''uninstaller_icon'',
     ''output_installer_name'', ''install_dir_name'', ''compression'', ''start_menu_folder'',
     ''uninstall_reg_key'', ''install_path_reg_key'', ''branding'']"

definition derivation_keys :: "string list" where
  "derivation_keys = [''compression'', ''license_file'', ''installer_icon'', ''uninstaller_icon'',
     ''start_menu_folder'', ''source_dir'', ''uninstall_reg_key'']"

definition bool_keys :: "string list" where
  "bool_keys = [''request_admin'', ''prefer_64bit'', ''solid_compression'',
     ''create_startmenu_shortcut'', ''create_desktop_shortcut'', ''show_welcome_page'',
     ''show_license_page'', ''show_directory_page'', ''show_finish_page'']"

fun is_str :: "pyval option \<Rightarrow> bool" where
  "is_str (Some (PStr s)) = True"
| "is_str v = False"

fun is_bool :: "pyval option \<Rightarrow> bool" where
  "is_bool (Some (PBool b)) = True"
| "is_bool v = False"

fun is_str_or_none :: "pyval option \<Rightarrow> bool" where
  "is_str_or_none (Some (PStr s)) = True"
| "is_str_or_none (Some PNone) = True"
| "is_str_or_none v = False"

fun is_languages :: "pyval option \<Rightarrow> bool" where
  "is_languages (Some (PList xs)) = (xs \<noteq> [] \<and> list_all (\<lambda>x. is_str (Some x)) xs)"
| "is_languages v = False"

definition complete :: "pydict \<Rightarrow> bool" where
  "complete config \<longleftrightarrow>
     list_all (\<lambda>k. is_str (config k)) str_keys \<and>
     list_all (\<lambda>k. is_bool (config k)) bool_keys \<and>
     is_str_or_none (config ''main_executable'') \<and>
     is_languages (config ''selected_languages'')"

text \<open>A file system whose \<^verbatim>\<open>os.path.exists\<close> answers for every string.\<close>

definition answers :: "env \<Rightarrow> bool" where
  "answers e \<longleftrightarrow> (\<forall>s. \<exists>b. path_exists e (PStr s) = Inr b)"

text \<open>
  \<^verbatim>\<open>str\<close> of a list writes the entries of the list, and a list in a list in a list, more
  deeply than the interpreter allows at the moment of the call, raises
  \<^verbatim>\<open>RecursionError\<close>. Where that depth lies is a setting of the interpreter and not a
  matter of this program, and \<open>writable\<close> says nothing about it. \<open>flat v\<close> says that \<open>v\<close>
  is not a list with a list in it; the values that the collector stores are all flat.
\<close>

fun scalar :: "pyval \<Rightarrow> bool" where
  "scalar (PList xs) = False"
| "scalar v = True"

fun flat :: "pyval \<Rightarrow> bool" where
  "flat (PList xs) = list_all scalar xs"
| "flat v = True"

text \<open>
  The values that the fields \<^verbatim>\<open>current_year\<close> and \<^verbatim>\<open>generation_date\<close> get are
  writable: the year of the clock and its date, or the values of the configuration under
  these two keys, if it has them (line 328 comes after lines 326 and 327).
\<close>

definition clock_writable :: "env \<Rightarrow> pydict \<Rightarrow> bool" where
  "clock_writable e config \<longleftrightarrow>
     writable (dict_get config ''current_year'' (PInt (current_year e))) \<and>
     writable (dict_get config ''generation_date'' (PStr (generation_date e)))"

subsection \<open>An example\<close>

text \<open>
  The configuration that the collector builds when every default is accepted, the
  executable \<^verbatim>\<open>app.exe\<close> of the source directory is chosen, no license and no icon is
  chosen and no desktop shortcut is wanted; and an environment in which no file exists.
\<close>

definition example_config :: pydict where
  \<open>example_config = map_of [
    (''app_name'', PStr ''My Application''),
    (''app_version'', PStr ''1.0.0''),
    (''product_version'', PStr ''1.0.0.0''),
    (''publisher'', PStr ''My Company''),
    (''website'', PStr []),
    (''source_dir'', PStr ''C:/build/app''),
    (''main_executable'', PStr ''app.exe''),
    (''license_file'', PStr []),
    (''installer_icon'', PStr []),
    (''uninstaller_icon'', PStr []),
    (''output_installer_name'', PStr ''My_Application_v1.0.0_Setup.exe''),
    (''install_dir_name'', PStr ''My Application''),
    (''request_admin'', PBool True),
    (''prefer_64bit'', PBool True),
    (''compression'', PStr ''lzma''),
    (''solid_compression'', PBool True),
    (''create_startmenu_shortcut'', PBool True),
    (''start_menu_folder'', PStr ''My Company''),
    (''create_desktop_shortcut'', PBool False),
    (''uninstall_reg_key'', PStr (''Software'' @ BS @ ''Microsoft'' @ BS @ ''Windows'' @ BS @
        ''CurrentVersion'' @ BS @ ''Uninstall'' @ BS @ ''MyApplication'')),
    (''install_path_reg_key'', PStr (''Software'' @ BS @ ''MyCompany'' @ BS @ ''MyApplication'')),
    (''selected_languages'', PList [PStr ''English'', PStr ''French'']),
    (''branding'', PStr ''My Company - My Application v1.0.0''),
    (''show_welcome_page'', PBool True),
    (''show_license_page'', PBool False),
    (''show_directory_page'', PBool True),
    (''show_finish_page'', PBool True)]\<close>

definition example_env :: env where
  "example_env = \<lparr> generation_date = ''2025-01-02 03:04:05'', current_year = 2025,
     path_exists = (\<lambda>v. Inr False), abspath = (\<lambda>v. Inl OSError) \<rparr>"

text \<open>An environment in which every file exists and every path is absolute already.\<close>

definition existing_env :: env where
  "existing_env = \<lparr> generation_date = ''2025-01-02 03:04:05'', current_year = 2025,
     path_exists = (\<lambda>v. Inr True),
     abspath = (\<lambda>v. case v of PStr s \<Rightarrow> Inr s | _ \<Rightarrow> Inl TypeError) \<rparr>"

section \<open>Formatting\<close>

lemma format_py_Inl:
  "format_py segs ctx = Inl (KeyError k) \<Longrightarrow> k \<in> set (slot_names segs) \<and> ctx k = None"
  by (induction segs ctx rule: format_py.induct)
     (auto split: sum.splits option.splits if_splits)

lemma format_py_Inr:
  "format_py segs ctx = Inr s \<Longrightarrow>
     (\<forall>k \<in> set (slot_names segs). ctx k \<noteq> None) \<and> s = concat (map (segment_text ctx) segs)"
  by (induction segs ctx arbitrary: s rule: format_py.induct)
     (auto split: sum.splits option.splits if_splits)

lemma format_py_bound:
  "\<forall>k \<in> set (slot_names segs). \<exists>v. ctx k = Some v \<and> writable v \<Longrightarrow>
     format_py segs ctx = Inr (concat (map (segment_text ctx) segs))"
  by (induction segs ctx rule: format_py.induct) auto


text \<open>The values that \<^verbatim>\<open>str\<close> writes: an integer is writable if it has at most 4300 digits.\<close>

lemma string_of_nat_nonempty: "string_of_nat n \<noteq> []"
  by (subst string_of_nat.simps) simp

lemma string_of_nat_length:
  "0 < d \<Longrightarrow> (length (string_of_nat n) \<le> d) = (n < 10 ^ d)"
proof (induction n arbitrary: d rule: string_of_nat.induct)
  case (1 n)
  show ?case
  proof (cases "n < 10")
    case True
    have "(10::nat) ^ 1 \<le> 10 ^ d" using 1(2) by (intro power_increasing) simp_all
    with True have "n < 10 ^ d" by simp
    moreover have "length (string_of_nat n) = 1"
      using True by (subst string_of_nat.simps) simp
    ultimately show ?thesis using 1(2) by simp
  next
    case False
    then have l: "length (string_of_nat n) = Suc (length (string_of_nat (n div 10)))"
      by (subst string_of_nat.simps) simp
    show ?thesis
    proof (cases d)
      case 0
      with 1(2) show ?thesis by simp
    next
      case (Suc d')
      show ?thesis
      proof (cases "d' = 0")
        case True
        with Suc False l string_of_nat_nonempty[of "n div 10"] show ?thesis
          by (cases "string_of_nat (n div 10)") simp_all
      next
        case more: False
        then have "0 < d'" by simp
        from 1(1)[OF False this]
        have "(length (string_of_nat (n div 10)) \<le> d') = (n div 10 < 10 ^ d')" .
        moreover have "(n div 10 < 10 ^ d') = (n < 10 ^ Suc d')"
          by (simp add: div_less_iff_less_mult mult.commute)
        ultimately show ?thesis using l Suc by simp
      qed
    qed
  qed
qed

lemma digits_int:
  "0 < d \<Longrightarrow> (length (string_of_nat (nat \<bar>i\<bar>)) \<le> d) = (\<bar>i\<bar> < 10 ^ d)"
  using string_of_nat_length[of d "nat \<bar>i\<bar>"] by (simp add: nat_less_iff)

lemma writable_int: "writable (PInt i) \<longleftrightarrow> \<bar>i\<bar> < 10 ^ 4300"
proof -
  have "(0::nat) < 4300" by simp
  then show ?thesis
    unfolding writable.simps by (rule digits_int)
qed

lemma format_py_unwritable:
  assumes "\<forall>k' \<in> set (slot_names before). \<exists>v. ctx k' = Some v \<and> writable v"
      and "ctx k = Some v" and "\<not> writable v"
  shows "format_py (before @ Slot k # rest) ctx = Inl ValueError"
  using assms by (induction before ctx rule: format_py.induct) auto

lemma NSI_TEMPLATE_slot_names:
  "slot_names NSI_TEMPLATE =
    [''current_year'', ''generation_date'', ''app_name'', ''output_installer_name'',
     ''install_dir_base'', ''install_dir_name'', ''adminregistry'', ''install_path_reg_key'',
     ''branding'', ''product_version'', ''app_name'', ''publisher'', ''current_year'',
     ''publisher'', ''app_name'', ''app_version'', ''product_version'',
     ''request_execution_level'', ''set_compressor_command'', ''mui_defines'', ''page_welcome'',
     ''page_license'', ''page_directory'', ''page_finish'', ''language_macros'',
     ''start_menu_folder'', ''source_dir_nsis'', ''adminregistry'', ''install_path_reg_key'',
     ''adminregistry'', ''uninstall_reg_key'', ''app_name'', ''adminregistry'',
     ''uninstall_reg_key'', ''adminregistry'', ''uninstall_reg_key'', ''uninstall_icon_reg'',
     ''adminregistry'', ''uninstall_reg_key'', ''publisher'', ''adminregistry'',
     ''uninstall_reg_key'', ''app_version'', ''adminregistry'', ''uninstall_reg_key'',
     ''website'', ''adminregistry'', ''uninstall_reg_key'', ''adminregistry'',
     ''uninstall_reg_key'', ''create_shortcuts_block'', ''remove_shortcuts_block'',
     ''adminregistry'', ''uninstall_reg_key'', ''adminregistry'', ''install_path_reg_key'']"
  unfolding NSI_TEMPLATE_def by simp

section \<open>The steps of the generator\<close>

lemma build_context_Inr:
  assumes "build_context e config = (Inr ctx, config', printed)"
  shows "\<exists>lang_lines compressor defines icons folder source entry.
           lang_macros_lines config = (printed, Inr lang_lines) \<and>
           set_compressor_command config = Inr compressor \<and>
           license_defines e config = Inr (defines, config') \<and>
           icon_defines e config' = Inr icons \<and>
           dict_index config' ''start_menu_folder'' = Inr folder \<and>
           source_dir_nsis config' = Inr source \<and>
           uninstall_icon_reg e (adminregistry config) config' = Inr entry \<and>
           ctx = final_context e config lang_lines compressor defines config' icons folder source entry"
  using assms
  unfolding build_context_def final_context_def
  by (auto simp: Let_def dict_get_def py_str_def split: prod.splits sum.splits)

lemma generate_script:
  assumes "fst (generate_nsis_script_from_config e config) = Returned (Some script)"
  shows "\<exists>config' printed.
           build_context e config = (Inr (context_of e config), config', printed) \<and>
           generate_nsis_script_from_config e config = (Returned (Some script), config', printed) \<and>
           format_py NSI_TEMPLATE (context_of e config) = Inr script"
  using assms
  by (auto simp: generate_nsis_script_from_config_def context_of_def
           split: prod.splits sum.splits exn.splits)


lemma final_context_derived:
  fixes e config lang_lines compressor defs config1 icons folder source entry
  defines "ctx \<equiv> final_context e config lang_lines compressor defs config1 icons folder source entry"
  shows "ctx ''language_macros'' = Some (PStr (join ''\<newline>'' lang_lines))"
    and "ctx ''install_dir_base'' = Some (PStr (install_dir_base config))"
    and "ctx ''request_execution_level'' = Some (PStr (request_execution_level config))"
    and "ctx ''adminregistry'' = Some (PStr (adminregistry config))"
    and "ctx ''set_compressor_command'' = Some (PStr compressor)"
    and "ctx ''mui_defines'' = Some (PStr (join ''\<newline>'' (defs @ icons)))"
    and "ctx ''page_welcome'' = Some (PStr (page_welcome config1))"
    and "ctx ''page_finish'' = Some (PStr (page_finish config1))"
    and "ctx ''page_directory'' = Some (PStr (page_directory config1))"
    and "ctx ''page_license'' = Some (PStr (page_license config1))"
    and "ctx ''start_menu_folder'' = Some folder"
    and "ctx ''source_dir_nsis'' = Some (PStr source)"
    and "ctx ''create_shortcuts_block'' = Some (PStr (shortcuts_block (create_shortcut_lines config1)))"
    and "ctx ''remove_shortcuts_block'' = Some (PStr (shortcuts_block (remove_shortcut_lines config1)))"
    and "ctx ''uninstall_icon_reg'' = Some (PStr entry)"
  unfolding ctx_def final_context_def by simp_all

lemma final_context_config:
  assumes "config k = Some v"
  shows "final_context e config lang_lines compressor defs config1 icons folder source entry k \<noteq> None"
  using assms unfolding final_context_def by (simp add: map_add_def)

lemma final_context_clock:
  "\<exists>v. final_context e config lang_lines compressor defs config1 icons folder source entry ''current_year'' = Some v"
  "\<exists>v. final_context e config lang_lines compressor defs config1 icons folder source entry ''generation_date'' = Some v"
  unfolding final_context_def by (simp_all add: map_add_def split: option.splits)

lemma final_context_clock_get:
  "final_context e config lang_lines compressor defs config1 icons folder source entry ''current_year'' =
     Some (dict_get config ''current_year'' (PInt (current_year e)))"
  "final_context e config lang_lines compressor defs config1 icons folder source entry ''generation_date'' =
     Some (dict_get config ''generation_date'' (PStr (generation_date e)))"
  unfolding final_context_def by (simp_all add: map_add_def dict_get_def split: option.splits)

lemma final_context_config_value:
  assumes "k \<notin> set derived_slots"
  shows "final_context e config lang_lines compressor defs config1 icons folder source entry k = config k"
  using assms unfolding final_context_def derived_slots_def
  by (simp add: map_add_def split: option.splits)

lemma is_str_cases: "is_str v \<Longrightarrow> \<exists>s. v = Some (PStr s)"
  by (cases v rule: is_str.cases) auto

lemma is_bool_cases: "is_bool v \<Longrightarrow> \<exists>b. v = Some (PBool b)"
  by (cases v rule: is_bool.cases) auto

lemma complete_str: "complete config \<Longrightarrow> k \<in> set str_keys \<Longrightarrow> \<exists>s. config k = Some (PStr s)"
  by (auto simp: complete_def list_all_iff intro: is_str_cases)

lemma complete_bool: "complete config \<Longrightarrow> k \<in> set bool_keys \<Longrightarrow> \<exists>b. config k = Some (PBool b)"
  by (auto simp: complete_def list_all_iff intro: is_bool_cases)

lemma is_languages_cases:
  "is_languages v \<Longrightarrow> \<exists>langs. v = Some (PList (map PStr langs)) \<and> langs \<noteq> []"
proof (cases v rule: is_languages.cases)
  case (1 xs)
  assume "is_languages v"
  with 1 have ne: "xs \<noteq> []" and all: "\<forall>x \<in> set xs. \<exists>s. x = PStr s"
    by (auto simp: list_all_iff dest: is_str_cases)
  have "\<exists>langs. xs = map PStr langs" using all
  proof (induction xs)
    case Nil
    then show ?case by simp
  next
    case (Cons x xs)
    then obtain s langs where "x = PStr s" "xs = map PStr langs" by auto
    then have "x # xs = map PStr (s # langs)" by simp
    then show ?case by (rule exI)
  qed
  with ne 1 show ?thesis by auto
qed auto

lemma complete_languages:
  "complete config \<Longrightarrow> \<exists>langs. config ''selected_languages'' = Some (PList (map PStr langs)) \<and> langs \<noteq> []"
  by (simp add: complete_def is_languages_cases)

lemma lang_macros_lines_list:
  assumes "config ''selected_languages'' = Some (PList xs)"
  shows \<open>lang_macros_lines config =
           (if xs \<noteq> [] then ([DebugLanguagesSelected (PList xs)], Inr (map language_directive xs))
            else ([WarningNoLanguages], Inr [''!insertmacro MUI_LANGUAGE "English"'']))\<close>
  using assms by (simp add: lang_macros_lines_def py_iter_def)

lemma set_and_exists_str:
  assumes "config k = Some (PStr s)"
  shows "set_and_exists e config k = (if s = [] then Inr False else path_exists e (PStr s))"
  using assms by (simp add: set_and_exists_def dict_get_def)

lemma set_and_exists_answers:
  assumes "config k = Some (PStr s)" and "answers e"
  shows "\<exists>b. set_and_exists e config k = Inr b"
  using assms by (auto simp: set_and_exists_str answers_def)

lemma license_defines_cases:
  assumes "config ''license_file'' = Some (PStr p)" and "set_and_exists e config ''license_file'' = Inr b"
  shows "\<exists>defs. license_defines e config =
           Inr (defs, if b then config else config(''show_license_page'' \<mapsto> PBool False))"
  using assms by (cases b) (auto simp: license_defines_def str_method_def dict_get_def)

lemma icon_defines_answers:
  assumes "set_and_exists e config ''installer_icon'' = Inr a"
      and "set_and_exists e config ''uninstaller_icon'' = Inr b"
  shows "\<exists>icons. icon_defines e config = Inr icons"
  using assms by (cases a; cases b) (auto simp: icon_defines_def)

lemma main_exe_icon_reg_str:
  assumes "config ''main_executable'' = Some (PStr m)" and "config ''uninstall_reg_key'' = Some key"
  shows "\<exists>entry. main_exe_icon_reg hive config n = Inr entry"
  using assms by (simp add: main_exe_icon_reg_def str_method_def dict_get_def dict_index_def)

lemma uninstall_icon_reg_str:
  assumes "config ''main_executable'' = Some (PStr m)" and "config ''uninstall_reg_key'' = Some key"
      and "set_and_exists e config ''installer_icon'' = Inr a"
      and "set_and_exists e config ''uninstaller_icon'' = Inr b"
  shows "\<exists>entry. uninstall_icon_reg e hive config = Inr entry"
proof -
  obtain icon where "uninst_icon_path_reg e config = Inr icon"
    using assms(3,4) by (cases a; cases b) (auto simp: uninst_icon_path_reg_def)
  moreover have "\<exists>entry. main_exe_icon_reg hive config n = Inr entry" for n
    using assms(1,2) by (rule main_exe_icon_reg_str)
  ultimately show ?thesis
    using assms(2)
    by (auto simp: uninstall_icon_reg_def dict_index_def split: sum.splits)
qed


lemma NSI_TEMPLATE_slots_subset:
  "set (slot_names NSI_TEMPLATE) \<subseteq> set derived_slots \<union> set config_slots"
  unfolding NSI_TEMPLATE_slot_names derived_slots_def config_slots_def by simp

lemma final_context_derived_bound:
  "\<forall>k \<in> set derived_slots.
     final_context e config lang_lines compressor defs config1 icons folder source entry k \<noteq> None"
  unfolding derived_slots_def
  using final_context_clock[of e config lang_lines compressor defs config1 icons folder source entry]
  by (simp add: final_context_derived)

lemma final_context_bound:
  assumes "\<forall>k \<in> set config_slots. config k \<noteq> None"
  shows "\<forall>k \<in> set (slot_names NSI_TEMPLATE).
           final_context e config lang_lines compressor defs config1 icons folder source entry k \<noteq> None"
proof
  fix k assume "k \<in> set (slot_names NSI_TEMPLATE)"
  with NSI_TEMPLATE_slots_subset consider "k \<in> set derived_slots" | "k \<in> set config_slots"
    by blast
  then show "final_context e config lang_lines compressor defs config1 icons folder source entry k \<noteq> None"
  proof cases
    case 1
    then show ?thesis using final_context_derived_bound by blast
  next
    case 2
    with assms obtain v where "config k = Some v" by auto
    then show ?thesis by (rule final_context_config[of config k v])
  qed
qed

lemma config_slots_not_derived: "k \<in> set config_slots \<Longrightarrow> k \<notin> set derived_slots"
  by (auto simp: config_slots_def derived_slots_def)

lemma final_context_derived_writable:
  assumes "clock_writable e config" and "writable folder"
  shows "\<forall>k \<in> set derived_slots. \<exists>v.
           final_context e config lang_lines compressor defs config1 icons folder source entry k = Some v \<and>
           writable v"
  unfolding derived_slots_def using assms
  by (simp add: final_context_derived final_context_clock_get clock_writable_def)

lemma final_context_slots_writable:
  assumes "\<forall>k \<in> set config_slots. \<exists>s. config k = Some (PStr s)"
      and "clock_writable e config" and "writable folder"
  shows "\<forall>k \<in> set (slot_names NSI_TEMPLATE). \<exists>v.
           final_context e config lang_lines compressor defs config1 icons folder source entry k = Some v \<and>
           writable v"
proof
  fix k assume "k \<in> set (slot_names NSI_TEMPLATE)"
  with NSI_TEMPLATE_slots_subset consider "k \<in> set derived_slots" | "k \<in> set config_slots"
    by blast
  then show "\<exists>v. final_context e config lang_lines compressor defs config1 icons folder source entry k = Some v \<and>
           writable v"
  proof cases
    case 1
    then show ?thesis using final_context_derived_writable[OF assms(2,3)] by blast
  next
    case 2
    with assms(1) obtain s where "config k = Some (PStr s)" by blast
    with 2 show ?thesis
      by (simp add: final_context_config_value config_slots_not_derived)
  qed
qed

lemma build_context_steps:
  assumes "lang_macros_lines config = (printed, Inr lang_lines)"
      and "set_compressor_command config = Inr compressor"
      and "license_defines e config = Inr (defs, config')"
      and "icon_defines e config' = Inr icons"
      and "dict_index config' ''start_menu_folder'' = Inr folder"
      and "source_dir_nsis config' = Inr source"
  shows "build_context e config =
           (case uninstall_icon_reg e (adminregistry config) config' of
              Inl x \<Rightarrow> (Inl x, config', printed)
            | Inr entry \<Rightarrow>
                (Inr (final_context e config lang_lines compressor defs config' icons folder source entry),
                 config', printed))"
  unfolding build_context_def final_context_def using assms
  by (simp add: Let_def dict_get_def py_str_def split: sum.splits)

lemma set_and_exists_same:
  assumes "config' k = config k"
  shows "set_and_exists e config' k = set_and_exists e config k"
  using assms by (simp add: set_and_exists_def dict_get_def)

lemma derivation:
  assumes c: "list_all (\<lambda>k. is_str (config k)) derivation_keys"
      and l: "config ''selected_languages'' = Some (PList xs)"
      and a: "answers e"
  obtains printed lang_lines compressor defs config' icons folder source bi bu key
    where "lang_macros_lines config = (printed, Inr lang_lines)"
      and "set_compressor_command config = Inr compressor"
      and "license_defines e config = Inr (defs, config')"
      and "icon_defines e config' = Inr icons"
      and "dict_index config' ''start_menu_folder'' = Inr folder"
      and "source_dir_nsis config' = Inr source"
      and "\<And>k. k \<noteq> ''show_license_page'' \<Longrightarrow> config' k = config k"
      and "set_and_exists e config' ''installer_icon'' = Inr bi"
      and "set_and_exists e config' ''uninstaller_icon'' = Inr bu"
      and "config' ''uninstall_reg_key'' = Some key"
      and "writable folder"
      and "flat folder"
proof -
  from l obtain printed lang_lines where 1: "lang_macros_lines config = (printed, Inr lang_lines)"
    by (cases "xs = []") (simp_all add: lang_macros_lines_list)
  have str: "\<exists>s. config k = Some (PStr s)" if "k \<in> set derivation_keys" for k
    using c that by (auto simp: list_all_iff intro: is_str_cases)
  from str[of "''compression''"] obtain compressor where 2: "set_compressor_command config = Inr compressor"
    by (auto simp: derivation_keys_def set_compressor_command_def dict_get_def str_method_def Let_def)
  from str[of "''license_file''"] obtain p where p: "config ''license_file'' = Some (PStr p)"
    by (auto simp: derivation_keys_def)
  from set_and_exists_answers[of config "''license_file''" p e, OF p a]
  obtain b where "set_and_exists e config ''license_file'' = Inr b" ..
  from license_defines_cases[OF p this] obtain defs config'
    where 3: "license_defines e config = Inr (defs, config')"
      and config': "config' = (if b then config else config(''show_license_page'' \<mapsto> PBool False))"
    by blast
  have same: "config' k = config k" if "k \<noteq> ''show_license_page''" for k
    using that by (simp add: config')
  have str': "\<exists>s. config' k = Some (PStr s)" if "k \<in> set derivation_keys" for k
    using str[OF that] that same[of k] by (auto simp: derivation_keys_def)
  from str'[of "''installer_icon''"] obtain i where "config' ''installer_icon'' = Some (PStr i)"
    by (auto simp: derivation_keys_def)
  from set_and_exists_answers[of config' "''installer_icon''" i e, OF this a]
  obtain bi where bi: "set_and_exists e config' ''installer_icon'' = Inr bi" ..
  from str'[of "''uninstaller_icon''"] obtain u where "config' ''uninstaller_icon'' = Some (PStr u)"
    by (auto simp: derivation_keys_def)
  from set_and_exists_answers[of config' "''uninstaller_icon''" u e, OF this a]
  obtain bu where bu: "set_and_exists e config' ''uninstaller_icon'' = Inr bu" ..
  from icon_defines_answers[OF bi bu] obtain icons where 4: "icon_defines e config' = Inr icons" ..
  from str'[of "''start_menu_folder''"] obtain folder
    where 5: "dict_index config' ''start_menu_folder'' = Inr folder" and wf: "writable folder"
      and ff: "flat folder"
    by (auto simp: derivation_keys_def dict_index_def)
  from str'[of "''source_dir''"] obtain source where 6: "source_dir_nsis config' = Inr source"
    by (auto simp: derivation_keys_def source_dir_nsis_def dict_index_def str_method_def)
  from str'[of "''uninstall_reg_key''"] obtain key where key: "config' ''uninstall_reg_key'' = Some key"
    by (auto simp: derivation_keys_def)
  from 1 2 3 4 5 6 same bi bu key wf ff show ?thesis by (rule that)
qed

lemma builds:
  assumes c: "list_all (\<lambda>k. is_str (config k)) derivation_keys"
      and l: "config ''selected_languages'' = Some (PList xs)"
      and a: "answers e" and m: "config ''main_executable'' = Some (PStr m)"
  shows "\<exists>lang_lines compressor defs config' icons folder source entry printed.
           build_context e config =
             (Inr (final_context e config lang_lines compressor defs config' icons folder source entry),
              config', printed) \<and>
           writable folder \<and> flat folder"
proof (rule derivation[OF c l a])
  fix printed lang_lines compressor defs config' icons folder source bi bu key
  assume s: "lang_macros_lines config = (printed, Inr lang_lines)"
            "set_compressor_command config = Inr compressor"
            "license_defines e config = Inr (defs, config')"
            "icon_defines e config' = Inr icons"
            "dict_index config' ''start_menu_folder'' = Inr folder"
            "source_dir_nsis config' = Inr source"
     and same: "\<And>k. k \<noteq> ''show_license_page'' \<Longrightarrow> config' k = config k"
     and bi: "set_and_exists e config' ''installer_icon'' = Inr bi"
     and bu: "set_and_exists e config' ''uninstaller_icon'' = Inr bu"
     and key: "config' ''uninstall_reg_key'' = Some key"
     and wf: "writable folder"
     and ff: "flat folder"
  from m same have m': "config' ''main_executable'' = Some (PStr m)" by simp
  from uninstall_icon_reg_str[OF m' key bi bu] obtain entry
    where "uninstall_icon_reg e (adminregistry config) config' = Inr entry" by blast
  with build_context_steps[OF s] wf ff have "build_context e config =
      (Inr (final_context e config lang_lines compressor defs config' icons folder source entry),
       config', printed) \<and> writable folder \<and> flat folder"
    by simp
  then show "\<exists>lang_lines compressor defs config' icons folder source entry printed.
           build_context e config =
             (Inr (final_context e config lang_lines compressor defs config' icons folder source entry),
              config', printed) \<and>
           writable folder \<and> flat folder"
    by (intro exI)
qed

lemma derivation_keys_subset: "set derivation_keys \<subseteq> set str_keys"
  by (simp add: derivation_keys_def str_keys_def)

lemma renders:
  assumes c: "list_all (\<lambda>k. is_str (config k)) str_keys"
      and l: "config ''selected_languages'' = Some (PList xs)"
      and a: "answers e" and m: "config ''main_executable'' = Some (PStr m)"
      and w: "clock_writable e config"
  shows "\<exists>script config' printed.
           generate_nsis_script_from_config e config = (Returned (Some script), config', printed)"
proof -
  from c derivation_keys_subset have "list_all (\<lambda>k. is_str (config k)) derivation_keys"
    by (auto simp: list_all_iff)
  from builds[OF this l a m]
  obtain lang_lines compressor defs config' icons folder source entry printed
    where ctx: "build_context e config =
             (Inr (final_context e config lang_lines compressor defs config' icons folder source entry),
              config', printed)"
      and wf: "writable folder"
    by blast
  let ?ctx = "final_context e config lang_lines compressor defs config' icons folder source entry"
  have "set config_slots \<subseteq> set str_keys"
    by (simp add: config_slots_def str_keys_def)
  then have "\<forall>k \<in> set config_slots. \<exists>s. config k = Some (PStr s)"
    using c by (auto simp: list_all_iff dest!: is_str_cases)
  then have "\<forall>k \<in> set (slot_names NSI_TEMPLATE). \<exists>v. ?ctx k = Some v \<and> writable v"
    using w wf by (rule final_context_slots_writable)
  then have "format_py NSI_TEMPLATE ?ctx = Inr (concat (map (segment_text ?ctx) NSI_TEMPLATE))"
    by (rule format_py_bound)
  with ctx show ?thesis
    by (simp add: generate_nsis_script_from_config_def)
qed

lemma renders_script:
  assumes "list_all (\<lambda>k. is_str (config k)) str_keys"
      and "config ''selected_languages'' = Some (PList xs)"
      and "answers e" and "config ''main_executable'' = Some (PStr m)"
      and "clock_writable e config"
  shows "\<exists>script. fst (generate_nsis_script_from_config e config) = Returned (Some script)"
proof -
  from renders[OF assms] obtain script config' printed
    where "generate_nsis_script_from_config e config = (Returned (Some script), config', printed)"
    by blast
  then have "fst (generate_nsis_script_from_config e config) = Returned (Some script)" by simp
  then show ?thesis ..
qed

lemma complete_renders:
  assumes "complete config" and "answers e" and "config ''main_executable'' = Some (PStr m)"
      and "clock_writable e config"
  shows "\<exists>script. fst (generate_nsis_script_from_config e config) = Returned (Some script)"
proof -
  from assms(1) obtain langs where "config ''selected_languages'' = Some (PList (map PStr langs))"
    using complete_languages by blast
  moreover from assms(1) have "list_all (\<lambda>k. is_str (config k)) str_keys"
    by (simp add: complete_def)
  ultimately show ?thesis using assms(2,3,4) renders_script by blast
qed

section \<open>The example\<close>

lemma example_config_lookup:
  \<open>example_config ''app_name'' = Some (PStr ''My Application'')\<close>
  \<open>example_config ''app_version'' = Some (PStr ''1.0.0'')\<close>
  \<open>example_config ''product_version'' = Some (PStr ''1.0.0.0'')\<close>
  \<open>example_config ''publisher'' = Some (PStr ''My Company'')\<close>
  \<open>example_config ''website'' = Some (PStr [])\<close>
  \<open>example_config ''source_dir'' = Some (PStr ''C:/build/app'')\<close>
  \<open>example_config ''main_executable'' = Some (PStr ''app.exe'')\<close>
  \<open>example_config ''license_file'' = Some (PStr [])\<close>
  \<open>example_config ''installer_icon'' = Some (PStr [])\<close>
  \<open>example_config ''uninstaller_icon'' = Some (PStr [])\<close>
  \<open>example_config ''output_installer_name'' = Some (PStr ''My_Application_v1.0.0_Setup.exe'')\<close>
  \<open>example_config ''install_dir_name'' = Some (PStr ''My Application'')\<close>
  \<open>example_config ''request_admin'' = Some (PBool True)\<close>
  \<open>example_config ''prefer_64bit'' = Some (PBool True)\<close>
  \<open>example_config ''compression'' = Some (PStr ''lzma'')\<close>
  \<open>example_config ''solid_compression'' = Some (PBool True)\<close>
  \<open>example_config ''create_startmenu_shortcut'' = Some (PBool True)\<close>
  \<open>example_config ''start_menu_folder'' = Some (PStr ''My Company'')\<close>
  \<open>example_config ''create_desktop_shortcut'' = Some (PBool False)\<close>
  \<open>example_config ''uninstall_reg_key'' = Some (PStr (''Software'' @ BS @ ''Microsoft'' @ BS @
      ''Windows'' @ BS @ ''CurrentVersion'' @ BS @ ''Uninstall'' @ BS @ ''MyApplication''))\<close>
  \<open>example_config ''install_path_reg_key'' =
      Some (PStr (''Software'' @ BS @ ''MyCompany'' @ BS @ ''MyApplication''))\<close>
  \<open>example_config ''selected_languages'' = Some (PList [PStr ''English'', PStr ''French''])\<close>
  \<open>example_config ''branding'' = Some (PStr ''My Company - My Application v1.0.0'')\<close>
  \<open>example_config ''show_welcome_page'' = Some (PBool True)\<close>
  \<open>example_config ''show_license_page'' = Some (PBool False)\<close>
  \<open>example_config ''show_directory_page'' = Some (PBool True)\<close>
  \<open>example_config ''show_finish_page'' = Some (PBool True)\<close>
  by (simp_all add: example_config_def)

lemma complete_example: "complete example_config"
  by (simp add: complete_def str_keys_def bool_keys_def example_config_lookup)

lemma answers_example: "answers example_env"
  by (auto simp: answers_def example_env_def)

lemma example_config_no_clock:
  "example_config ''current_year'' = None" "example_config ''generation_date'' = None"
  by (simp_all add: example_config_def)

lemma clock_writable_2025:
  assumes "config ''current_year'' = None" and "config ''generation_date'' = None"
      and "current_year e = 2025"
  shows "clock_writable e config"
  using assms by (simp add: clock_writable_def dict_get_def string_of_nat.simps)

lemma clock_writable_example:
  "clock_writable example_env example_config"
  by (rule clock_writable_2025) (simp_all add: example_config_no_clock example_env_def)

section \<open>The install root\<close>

lemma script_text:
  assumes "fst (generate_nsis_script_from_config e config) = Returned (Some script)"
  shows "script = concat (map (segment_text (context_of e config)) NSI_TEMPLATE)"
  using generate_script[OF assms] by (auto dest: format_py_Inr)

lemma context_of_final:
  assumes "fst (generate_nsis_script_from_config e config) = Returned (Some script)"
  shows "\<exists>config' printed lang_lines compressor defs icons folder source entry.
           generate_nsis_script_from_config e config = (Returned (Some script), config', printed) \<and>
           lang_macros_lines config = (printed, Inr lang_lines) \<and>
           set_compressor_command config = Inr compressor \<and>
           license_defines e config = Inr (defs, config') \<and>
           icon_defines e config' = Inr icons \<and>
           dict_index config' ''start_menu_folder'' = Inr folder \<and>
           source_dir_nsis config' = Inr source \<and>
           uninstall_icon_reg e (adminregistry config) config' = Inr entry \<and>
           context_of e config =
             final_context e config lang_lines compressor defs config' icons folder source entry"
proof -
  from generate_script[OF assms] obtain config' printed
    where b: "build_context e config = (Inr (context_of e config), config', printed)"
      and g: "generate_nsis_script_from_config e config = (Returned (Some script), config', printed)"
    by blast
  from build_context_Inr[OF b] g show ?thesis by blast
qed



section \<open>The compression command\<close>

lemma complete_update:
  assumes "complete config" and "k \<notin> set str_keys" and "k \<notin> set bool_keys"
      and "k \<noteq> ''main_executable''" and "k \<noteq> ''selected_languages''"
  shows "complete (config(k \<mapsto> v))"
  using assms by (auto simp: complete_def list_all_iff)


lemma complete_update_bool:
  assumes "complete config" and "k \<in> set bool_keys"
  shows "complete (config(k \<mapsto> PBool b))"
proof -
  have "k \<notin> set str_keys" "k \<noteq> ''main_executable''" "k \<noteq> ''selected_languages''"
    using assms(2) by (auto simp: str_keys_def bool_keys_def)
  with assms(1) show ?thesis
    by (auto simp: complete_def list_all_iff)
qed




section \<open>The registry hive\<close>

lemma NSI_TEMPLATE_registry_hives:
  "registry_hives NSI_TEMPLATE = replicate 12 (Slot ''adminregistry'')"
  unfolding NSI_TEMPLATE_def
  by (simp add: registry_commands_def numeral_eq_Suc)

lemma main_exe_icon_reg_shape:
  assumes "main_exe_icon_reg hive config n = Inr entry"
  shows \<open>\<exists>key rest. entry = ''WriteRegStr '' @ hive @ '' "'' @ key @ ''" "DisplayIcon" "'' @ rest\<close>
  using assms
  by (auto simp: main_exe_icon_reg_def split: sum.splits)

lemma uninstall_icon_reg_shape:
  assumes "uninstall_icon_reg e hive config = Inr entry"
  shows \<open>\<exists>key rest. entry = ''WriteRegStr '' @ hive @ '' "'' @ key @ ''" "DisplayIcon" "'' @ rest\<close>
  using assms main_exe_icon_reg_shape[of hive config _ entry]
  by (auto simp: uninstall_icon_reg_def split: sum.splits if_splits)

text \<open>
  C4. When the administrator question has a boolean answer, one hive is chosen,
  \<^verbatim>\<open>HKLM\<close> if the answer is true and \<^verbatim>\<open>HKCU\<close> otherwise. The script that the generator
  returns is the template with every field \<^verbatim>\<open>adminregistry\<close> replaced by this hive;
  the twelve registry statements of the template (the install path entry, the entries of
  the uninstall information and the two deletions of the uninstall section) all take
  their hive from this field; and the entry of the uninstall icon, which the generator
  builds itself, is a \<^verbatim>\<open>WriteRegStr\<close> statement on the same hive.
\<close>

theorem registry_hive_single:
  assumes "config ''request_admin'' = Some (PBool elevated)"
      and "fst (generate_nsis_script_from_config e config) = Returned (Some script)"
  shows \<open>script = concat (map (segment_text (context_of e config)) NSI_TEMPLATE) \<and>
         segment_text (context_of e config) (Slot ''adminregistry'') =
           (if elevated then ''HKLM'' else ''HKCU'') \<and>
         registry_hives NSI_TEMPLATE = replicate 12 (Slot ''adminregistry'') \<and>
         (\<exists>key rest. segment_text (context_of e config) (Slot ''uninstall_icon_reg'') =
            ''WriteRegStr '' @ (if elevated then ''HKLM'' else ''HKCU'') @ '' "'' @ key @
            ''" "DisplayIcon" "'' @ rest)\<close>
proof -
  from context_of_final[OF assms(2)] obtain lang_lines compressor defs config' icons folder source entry
    where u: "uninstall_icon_reg e (adminregistry config) config' = Inr entry"
      and c: "context_of e config =
             final_context e config lang_lines compressor defs config' icons folder source entry"
    by blast
  have hive: "adminregistry config = (if elevated then ''HKLM'' else ''HKCU'')"
    using assms(1) by (simp add: adminregistry_def dict_get_def)
  have "segment_text (context_of e config) (Slot ''adminregistry'') = adminregistry config"
   and "segment_text (context_of e config) (Slot ''uninstall_icon_reg'') = entry"
    using c by (simp_all add: final_context_derived py_str_def)
  with uninstall_icon_reg_shape[OF u] hive script_text[OF assms(2)] NSI_TEMPLATE_registry_hives
  show ?thesis by simp
qed

theorem registry_hive_single_witness:
  \<open>\<exists>script.
     fst (generate_nsis_script_from_config example_env example_config) = Returned (Some script) \<and>
     segment_text (context_of example_env example_config) (Slot ''adminregistry'') = ''HKLM'' \<and>
     (\<exists>key rest. segment_text (context_of example_env example_config) (Slot ''uninstall_icon_reg'') =
        ''WriteRegStr HKLM "'' @ key @ ''" "DisplayIcon" "'' @ rest)\<close>
proof -
  from complete_renders[OF complete_example answers_example example_config_lookup(7) clock_writable_example]
  obtain script where s: "fst (generate_nsis_script_from_config example_env example_config) = Returned (Some script)"
    by auto
  from registry_hive_single[OF example_config_lookup(13) s] s
  show ?thesis by simp
qed

section \<open>The language block\<close>

lemma answers_existing: "answers existing_env"
  by (auto simp: answers_def existing_env_def)

lemma example_strings: "list_all (\<lambda>k. is_str (example_config k)) str_keys"
  using complete_example by (simp add: complete_def)

lemma strings_update:
  assumes "list_all (\<lambda>k. is_str (config k)) str_keys"
      and "key \<in> set str_keys \<longrightarrow> is_str (Some v)"
  shows "list_all (\<lambda>k. is_str ((config(key \<mapsto> v)) k)) str_keys"
  using assms by (auto simp: list_all_iff)

lemma final_context_text:
  fixes e config lang_lines compressor defs config1 icons folder source entry
  defines "ctx \<equiv> final_context e config lang_lines compressor defs config1 icons folder source entry"
  shows "segment_text ctx (Slot ''language_macros'') = join ''\<newline>'' lang_lines"
    and "segment_text ctx (Slot ''mui_defines'') = join ''\<newline>'' (defs @ icons)"
    and "segment_text ctx (Slot ''page_license'') = page_license config1"
    and "segment_text ctx (Slot ''create_shortcuts_block'') = shortcuts_block (create_shortcut_lines config1)"
    and "segment_text ctx (Slot ''remove_shortcuts_block'') = shortcuts_block (remove_shortcut_lines config1)"
    and "segment_text ctx (Slot ''uninstall_icon_reg'') = entry"
  unfolding ctx_def by (simp_all add: final_context_derived py_str_def)







section \<open>The license page\<close>

lemma license_defines_same:
  assumes "license_defines e config = Inr (defs, config')" and "k \<noteq> ''show_license_page''"
  shows "config' k = config k"
  using assms by (auto simp: license_defines_def split: sum.splits bool.splits if_splits)





section \<open>The shortcut blocks\<close>

lemma shortcut_lines_same:
  assumes "\<And>k. k \<noteq> ''show_license_page'' \<Longrightarrow> config' k = config k"
  shows "create_shortcut_lines config' = create_shortcut_lines config"
    and "remove_shortcut_lines config' = remove_shortcut_lines config"
  by (simp_all add: create_shortcut_lines_def remove_shortcut_lines_def main_exe_path_def
        sm_link_def desktop_link_def dict_get_def assms)

lemma no_shortcut_lines:
  assumes "config ''create_startmenu_shortcut'' = Some (PBool False)"
      and "config ''create_desktop_shortcut'' = Some (PBool False)"
      and "config ''request_admin'' = Some (PBool elevated)"
  shows "create_shortcut_lines config =
           (if elevated then [''  SetShellVarContext all ; Install for all users''] else [])"
    and "remove_shortcut_lines config =
           (if elevated then [''  SetShellVarContext all ; Remove for all users''] else [])"
  using assms
  by (simp_all add: create_shortcut_lines_def remove_shortcut_lines_def dict_get_def)

lemma shortcut_blocks:
  assumes "fst (generate_nsis_script_from_config e config) = Returned (Some script)"
  shows "segment_text (context_of e config) (Slot ''create_shortcuts_block'') =
           shortcuts_block (create_shortcut_lines config)"
    and "segment_text (context_of e config) (Slot ''remove_shortcuts_block'') =
           shortcuts_block (remove_shortcut_lines config)"
    and "create_shortcut_lines (fst (snd (generate_nsis_script_from_config e config))) =
           create_shortcut_lines config"
    and "remove_shortcut_lines (fst (snd (generate_nsis_script_from_config e config))) =
           remove_shortcut_lines config"
proof -
  from context_of_final[OF assms]
  obtain config' printed lang_lines compressor defs icons folder source entry
    where g: "generate_nsis_script_from_config e config = (Returned (Some script), config', printed)"
      and l: "license_defines e config = Inr (defs, config')"
      and c: "context_of e config =
             final_context e config lang_lines compressor defs config' icons folder source entry"
    by blast
  have same: "create_shortcut_lines config' = create_shortcut_lines config"
             "remove_shortcut_lines config' = remove_shortcut_lines config"
    using shortcut_lines_same[of config' config, OF license_defines_same[OF l]] by simp_all
  show "segment_text (context_of e config) (Slot ''create_shortcuts_block'') =
           shortcuts_block (create_shortcut_lines config)"
    and "segment_text (context_of e config) (Slot ''remove_shortcuts_block'') =
           shortcuts_block (remove_shortcut_lines config)"
    unfolding c final_context_text same by simp_all
  from g same
  show "create_shortcut_lines (fst (snd (generate_nsis_script_from_config e config))) =
           create_shortcut_lines config"
    and "remove_shortcut_lines (fst (snd (generate_nsis_script_from_config e config))) =
           remove_shortcut_lines config"
    by simp_all
qed

text \<open>
  C3, as the code has it. When both shortcut flags are false and the administrator
  question has a boolean answer, the two shortcut blocks of the script are: the comment
  \<^verbatim>\<open>; No shortcuts configured\<close> if the install is not elevated, and the one line
  \<^verbatim>\<open>SetShellVarContext all\<close> (with its comment) if it is elevated. In both cases the
  lines of the two blocks have no \<^verbatim>\<open>CreateShortCut\<close> and no \<^verbatim>\<open>Delete\<close> among them.
\<close>

theorem shortcut_blocks_without_shortcuts:
  assumes "config ''create_startmenu_shortcut'' = Some (PBool False)"
      and "config ''create_desktop_shortcut'' = Some (PBool False)"
      and "config ''request_admin'' = Some (PBool elevated)"
      and "fst (generate_nsis_script_from_config e config) = Returned (Some script)"
  shows "script = concat (map (segment_text (context_of e config)) NSI_TEMPLATE) \<and>
         segment_text (context_of e config) (Slot ''create_shortcuts_block'') =
           (if elevated then ''  SetShellVarContext all ; Install for all users''
            else ''  ; No shortcuts configured'') \<and>
         segment_text (context_of e config) (Slot ''remove_shortcuts_block'') =
           (if elevated then ''  SetShellVarContext all ; Remove for all users''
            else ''  ; No shortcuts configured'') \<and>
         create_shortcut_lines (fst (snd (generate_nsis_script_from_config e config))) =
           (if elevated then [''  SetShellVarContext all ; Install for all users''] else []) \<and>
         remove_shortcut_lines (fst (snd (generate_nsis_script_from_config e config))) =
           (if elevated then [''  SetShellVarContext all ; Remove for all users''] else [])"
  using shortcut_blocks[OF assms(4)] no_shortcut_lines[OF assms(1,2,3)] script_text[OF assms(4)]
  by (simp add: shortcuts_block_def)

theorem shortcut_blocks_without_shortcuts_witness:
  "\<exists>script.
     fst (generate_nsis_script_from_config example_env
            (example_config(''create_startmenu_shortcut'' \<mapsto> PBool False,
                            ''request_admin'' \<mapsto> PBool False))) = Returned (Some script) \<and>
     segment_text (context_of example_env
            (example_config(''create_startmenu_shortcut'' \<mapsto> PBool False,
                            ''request_admin'' \<mapsto> PBool False))) (Slot ''create_shortcuts_block'') =
       ''  ; No shortcuts configured'' \<and>
     segment_text (context_of example_env
            (example_config(''create_startmenu_shortcut'' \<mapsto> PBool False,
                            ''request_admin'' \<mapsto> PBool False))) (Slot ''remove_shortcuts_block'') =
       ''  ; No shortcuts configured''"
proof -
  let ?config = "example_config(''create_startmenu_shortcut'' \<mapsto> PBool False,
                                ''request_admin'' \<mapsto> PBool False)"
  have "list_all (\<lambda>k. is_str ((example_config(''create_startmenu_shortcut'' \<mapsto> PBool False)) k)) str_keys"
    using example_strings by (rule strings_update) (simp add: str_keys_def)
  then have str: "list_all (\<lambda>k. is_str (?config k)) str_keys"
    by (rule strings_update) (simp add: str_keys_def)
  have l: "?config ''selected_languages'' = Some (PList [PStr ''English'', PStr ''French''])"
   and m: "?config ''main_executable'' = Some (PStr ''app.exe'')"
   and a: "?config ''create_startmenu_shortcut'' = Some (PBool False)"
   and b: "?config ''create_desktop_shortcut'' = Some (PBool False)"
   and c: "?config ''request_admin'' = Some (PBool False)"
    by (simp_all add: example_config_lookup)
  have w: "clock_writable example_env ?config"
    by (rule clock_writable_2025) (simp_all add: example_config_no_clock example_env_def)
  from renders_script[OF str l answers_example m w]
  obtain s where s: "fst (generate_nsis_script_from_config example_env ?config) = Returned (Some s)" ..
  from shortcut_blocks_without_shortcuts[OF a b c s] s show ?thesis
    by simp
qed

text \<open>
  The elevated install of the example without shortcuts: a script is returned, both
  flags are false, and neither block is the comment \<^verbatim>\<open>; No shortcuts configured\<close>.
\<close>

theorem shortcut_blocks_counterexample:
  "(example_config(''create_startmenu_shortcut'' \<mapsto> PBool False)) ''create_startmenu_shortcut'' =
     Some (PBool False) \<and>
   (example_config(''create_startmenu_shortcut'' \<mapsto> PBool False)) ''create_desktop_shortcut'' =
     Some (PBool False) \<and>
   fst (generate_nsis_script_from_config example_env
          (example_config(''create_startmenu_shortcut'' \<mapsto> PBool False))) =
     Returned (Some (concat (map (segment_text (context_of example_env
          (example_config(''create_startmenu_shortcut'' \<mapsto> PBool False)))) NSI_TEMPLATE))) \<and>
   segment_text (context_of example_env
          (example_config(''create_startmenu_shortcut'' \<mapsto> PBool False)))
      (Slot ''create_shortcuts_block'') = ''  SetShellVarContext all ; Install for all users'' \<and>
   segment_text (context_of example_env
          (example_config(''create_startmenu_shortcut'' \<mapsto> PBool False)))
      (Slot ''remove_shortcuts_block'') = ''  SetShellVarContext all ; Remove for all users'' \<and>
   segment_text (context_of example_env
          (example_config(''create_startmenu_shortcut'' \<mapsto> PBool False)))
      (Slot ''create_shortcuts_block'') \<noteq> ''  ; No shortcuts configured'' \<and>
   segment_text (context_of example_env
          (example_config(''create_startmenu_shortcut'' \<mapsto> PBool False)))
      (Slot ''remove_shortcuts_block'') \<noteq> ''  ; No shortcuts configured''"
proof -
  let ?config = "example_config(''create_startmenu_shortcut'' \<mapsto> PBool False)"
  have str: "list_all (\<lambda>k. is_str (?config k)) str_keys"
    using example_strings by (rule strings_update) (simp add: str_keys_def)
  have l: "?config ''selected_languages'' = Some (PList [PStr ''English'', PStr ''French''])"
   and m: "?config ''main_executable'' = Some (PStr ''app.exe'')"
   and a: "?config ''create_startmenu_shortcut'' = Some (PBool False)"
   and b: "?config ''create_desktop_shortcut'' = Some (PBool False)"
   and c: "?config ''request_admin'' = Some (PBool True)"
    by (simp_all add: example_config_lookup)
  have w: "clock_writable example_env ?config"
    by (rule clock_writable_2025) (simp_all add: example_config_no_clock example_env_def)
  from renders_script[OF str l answers_example m w]
  obtain s where s: "fst (generate_nsis_script_from_config example_env ?config) = Returned (Some s)" ..
  from shortcut_blocks[OF s] no_shortcut_lines[OF a b c] script_text[OF s] s a b show ?thesis
    by (simp add: shortcuts_block_def)
qed

section \<open>What the generator writes to the configuration\<close>

lemma build_context_config:
  assumes "build_context e config = (r, config', printed)"
  shows "config' = config \<or> (\<exists>defs. license_defines e config = Inr (defs, config'))"
  using assms unfolding build_context_def
  by (auto simp: Let_def split: prod.splits sum.splits)

lemma license_defines_result:
  assumes "license_defines e config = Inr (defs, config')"
  shows "config' = (if set_and_exists e config ''license_file'' = Inr True then config
                    else config(''show_license_page'' \<mapsto> PBool False))"
  using assms by (auto simp: license_defines_def split: sum.splits bool.splits if_splits)

lemma generate_config_cases:
  "fst (snd (generate_nsis_script_from_config e config)) = config \<or>
   fst (snd (generate_nsis_script_from_config e config)) =
     config(''show_license_page'' \<mapsto> PBool False)"
proof -
  obtain r config' printed where b: "build_context e config = (r, config', printed)"
    by (cases "build_context e config") auto
  then have g: "fst (snd (generate_nsis_script_from_config e config)) = config'"
    by (simp add: generate_nsis_script_from_config_def split: sum.splits exn.splits)
  from build_context_config[OF b] show ?thesis
    unfolding g using license_defines_result[of e config _ config']
    by (auto split: if_splits)
qed

lemma generate_config_script:
  assumes "fst (generate_nsis_script_from_config e config) = Returned (Some script)"
  shows "fst (snd (generate_nsis_script_from_config e config)) =
           (if set_and_exists e config ''license_file'' = Inr True then config
            else config(''show_license_page'' \<mapsto> PBool False))"
proof -
  from context_of_final[OF assms]
  obtain config' printed defs
    where g: "generate_nsis_script_from_config e config = (Returned (Some script), config', printed)"
      and l: "license_defines e config = Inr (defs, config')"
    by blast
  from license_defines_result[OF l] g show ?thesis by simp
qed

text \<open>
  C7, as the code has it. The generator writes to one key of the configuration only:
  after the call, every key other than \<^verbatim>\<open>show_license_page\<close> has the value it had
  before, and the configuration is either unchanged or has \<^verbatim>\<open>show_license_page\<close> set
  to \<^verbatim>\<open>False\<close>. When a script is returned, the configuration is unchanged if the
  license file is set and exists, and has \<^verbatim>\<open>show_license_page\<close> set to \<^verbatim>\<open>False\<close>
  otherwise.
\<close>

theorem renderer_writes_license_flag_only:
  "(\<forall>k. k \<noteq> ''show_license_page'' \<longrightarrow>
        fst (snd (generate_nsis_script_from_config e config)) k = config k) \<and>
   (fst (snd (generate_nsis_script_from_config e config)) = config \<or>
    fst (snd (generate_nsis_script_from_config e config)) =
      config(''show_license_page'' \<mapsto> PBool False)) \<and>
   (\<forall>script. fst (generate_nsis_script_from_config e config) = Returned (Some script) \<longrightarrow>
      fst (snd (generate_nsis_script_from_config e config)) =
        (if set_and_exists e config ''license_file'' = Inr True then config
         else config(''show_license_page'' \<mapsto> PBool False)))"
  using generate_config_cases[of e config] generate_config_script[of e config]
  by auto

lemma licensed_example:
  fixes config
  defines "config \<equiv> example_config(''license_file'' \<mapsto> PStr ''C:/build/LICENSE.rtf'',
                                      ''show_license_page'' \<mapsto> PBool True)"
  shows "list_all (\<lambda>k. is_str (config k)) str_keys"
    and "config ''selected_languages'' = Some (PList [PStr ''English'', PStr ''French''])"
    and "config ''main_executable'' = Some (PStr ''app.exe'')"
    and "config ''license_file'' = Some (PStr ''C:/build/LICENSE.rtf'')"
    and "config ''show_license_page'' = Some (PBool True)"
    and "config ''app_name'' = Some (PStr ''My Application'')"
proof -
  have "list_all (\<lambda>k. is_str ((example_config(''license_file'' \<mapsto> PStr ''C:/build/LICENSE.rtf'')) k)) str_keys"
    using example_strings by (rule strings_update) simp
  then show "list_all (\<lambda>k. is_str (config k)) str_keys"
    unfolding config_def by (rule strings_update) (simp add: str_keys_def)
qed (simp_all add: config_def example_config_lookup)

theorem renderer_writes_license_flag_only_witness:
  "\<exists>script.
     fst (generate_nsis_script_from_config example_env
            (example_config(''license_file'' \<mapsto> PStr ''C:/build/LICENSE.rtf'',
                            ''show_license_page'' \<mapsto> PBool True))) = Returned (Some script) \<and>
     fst (snd (generate_nsis_script_from_config example_env
            (example_config(''license_file'' \<mapsto> PStr ''C:/build/LICENSE.rtf'',
                            ''show_license_page'' \<mapsto> PBool True)))) ''app_name'' =
       Some (PStr ''My Application'') \<and>
     fst (snd (generate_nsis_script_from_config example_env
            (example_config(''license_file'' \<mapsto> PStr ''C:/build/LICENSE.rtf'',
                            ''show_license_page'' \<mapsto> PBool True)))) =
       example_config(''license_file'' \<mapsto> PStr ''C:/build/LICENSE.rtf'',
                      ''show_license_page'' \<mapsto> PBool False)"
proof -
  let ?config = "example_config(''license_file'' \<mapsto> PStr ''C:/build/LICENSE.rtf'',
                                ''show_license_page'' \<mapsto> PBool True)"
  have w: "clock_writable example_env ?config"
    by (rule clock_writable_2025) (simp_all add: example_config_no_clock example_env_def)
  from renders_script[OF licensed_example(1,2) answers_example licensed_example(3) w]
  obtain s where s: "fst (generate_nsis_script_from_config example_env ?config) = Returned (Some s)" ..
  have n: "set_and_exists example_env ?config ''license_file'' \<noteq> Inr True"
    by (simp add: set_and_exists_def dict_get_def example_env_def)
  have k: "''app_name'' \<noteq> ''show_license_page''" by simp
  from renderer_writes_license_flag_only[of example_env ?config] s n k licensed_example(6)
  show ?thesis by auto
qed

text \<open>
  The license file was chosen and the page was wanted, and the file is gone when the
  generator runs: the flag is true before the call and false after it.
\<close>

theorem renderer_mutates_counterexample:
  "(example_config(''license_file'' \<mapsto> PStr ''C:/build/LICENSE.rtf'',
                   ''show_license_page'' \<mapsto> PBool True)) ''show_license_page'' = Some (PBool True) \<and>
   fst (snd (generate_nsis_script_from_config example_env
          (example_config(''license_file'' \<mapsto> PStr ''C:/build/LICENSE.rtf'',
                          ''show_license_page'' \<mapsto> PBool True)))) ''show_license_page'' =
     Some (PBool False)"
proof -
  let ?config = "example_config(''license_file'' \<mapsto> PStr ''C:/build/LICENSE.rtf'',
                                ''show_license_page'' \<mapsto> PBool True)"
  have w: "clock_writable example_env ?config"
    by (rule clock_writable_2025) (simp_all add: example_config_no_clock example_env_def)
  from renders_script[OF licensed_example(1,2) answers_example licensed_example(3) w]
  obtain s where s: "fst (generate_nsis_script_from_config example_env ?config) = Returned (Some s)" ..
  have n: "set_and_exists example_env ?config ''license_file'' \<noteq> Inr True"
    by (simp add: set_and_exists_def dict_get_def example_env_def)
  from generate_config_script[OF s] n show ?thesis by simp
qed

section \<open>A field without a value\<close>








text \<open>
  The other way the formatting fails: a field with a value that \<^verbatim>\<open>str\<close> does not write
  comes before every field without a value. The second handler (lines 450 to 452) prints
  its line, which names no field, and \<^verbatim>\<open>None\<close> is returned.
\<close>

lemma unwritable_field_first:
  assumes "build_context e config = (Inr ctx, config', printed)"
      and "NSI_TEMPLATE = before @ Slot k # rest"
      and "\<forall>k' \<in> set (slot_names before). \<exists>v. ctx k' = Some v \<and> writable v"
      and "ctx k = Some v" and "\<not> writable v"
  shows "generate_nsis_script_from_config e config =
           (Returned None, config', printed @ [ErrorGenerating ValueError])"
proof -
  from format_py_unwritable[OF assms(3,4,5)]
  have "format_py NSI_TEMPLATE ctx = Inl ValueError"
    unfolding assms(2) .
  with assms(1) show ?thesis
    by (simp add: generate_nsis_script_from_config_def)
qed



section \<open>The registry entry of the uninstall icon\<close>

lemma uninst_icon_path_reg_none:
  assumes "set_and_exists e config ''installer_icon'' = Inr False"
      and "set_and_exists e config ''uninstaller_icon'' = Inr False"
  shows "uninst_icon_path_reg e config = Inr PNone"
  using assms by (simp add: uninst_icon_path_reg_def)

lemma main_exe_icon_reg_none:
  assumes "config ''main_executable'' = Some PNone"
  shows "main_exe_icon_reg hive config n = Inl AttributeError"
  using assms by (simp add: main_exe_icon_reg_def dict_get_def str_method_def)

lemma no_main_executable:
  assumes c: "list_all (\<lambda>k. is_str (config k)) derivation_keys"
      and l: "config ''selected_languages'' = Some (PList xs)"
      and a: "answers e"
      and m: "config ''main_executable'' = Some PNone"
      and i: "set_and_exists e config ''installer_icon'' = Inr False"
      and u: "set_and_exists e config ''uninstaller_icon'' = Inr False"
  shows "fst (generate_nsis_script_from_config e config) = Raised AttributeError"
proof (rule derivation[OF c l a])
  fix printed lang_lines compressor defs config' icons folder source bi bu key
  assume s: "lang_macros_lines config = (printed, Inr lang_lines)"
            "set_compressor_command config = Inr compressor"
            "license_defines e config = Inr (defs, config')"
            "icon_defines e config' = Inr icons"
            "dict_index config' ''start_menu_folder'' = Inr folder"
            "source_dir_nsis config' = Inr source"
     and same: "\<And>k. k \<noteq> ''show_license_page'' \<Longrightarrow> config' k = config k"
  have "set_and_exists e config' ''installer_icon'' = Inr False"
       "set_and_exists e config' ''uninstaller_icon'' = Inr False"
    using i u set_and_exists_same[of config' _ config e] same by simp_all
  then have "uninst_icon_path_reg e config' = Inr PNone"
    by (rule uninst_icon_path_reg_none)
  moreover have "config' ''main_executable'' = Some PNone"
    using m by (simp add: same)
  ultimately have "uninstall_icon_reg e (adminregistry config) config' = Inl AttributeError"
    by (simp add: uninstall_icon_reg_def main_exe_icon_reg_none)
  with build_context_steps[OF s]
  have "build_context e config = (Inl AttributeError, config', printed)"
    by simp
  then show "fst (generate_nsis_script_from_config e config) = Raised AttributeError"
    by (simp add: generate_nsis_script_from_config_def)
qed

text \<open>
  What lines 420 to 438 do when the main executable is a string, or the key is not
  there: the icon of the uninstaller if it is set and exists, else the icon of the
  installer if it is set and exists, else the main executable in the install directory;
  the main executable also when \<^verbatim>\<open>os.path.abspath\<close> raises.
\<close>

lemma uninstall_icon_reg_priority:
  assumes "config ''uninstaller_icon'' = Some (PStr u)"
      and "config ''installer_icon'' = Some (PStr i)"
      and "config ''uninstall_reg_key'' = Some (PStr key)"
      and "dict_get config ''main_executable'' (PStr ''?.exe'') = PStr exe"
      and "u \<noteq> [] \<longrightarrow> path_exists e (PStr u) = Inr ue"
      and "i \<noteq> [] \<longrightarrow> path_exists e (PStr i) = Inr ie"
  shows \<open>uninstall_icon_reg e hive config =
    Inr (''WriteRegStr '' @ hive @ '' "'' @ key @ ''" "DisplayIcon" "'' @
      (let icon = (if u \<noteq> [] \<and> ue then Some u else if i \<noteq> [] \<and> ie then Some i else None);
           main_exe = ''$INSTDIR'' @ BS @ BS @ replace_char CHR 0x5C (BS @ BS) exe @ ''"''
       in case icon of
            None \<Rightarrow> main_exe
          | Some p \<Rightarrow>
              (case abspath e (PStr p) of
                 Inr a \<Rightarrow> replace_char CHR 0x5C (BS @ BS) a @ ''"''
               | Inl x \<Rightarrow> main_exe @ '' ; Default icon due to path issue'')))\<close>
  using assms
  by (auto simp: uninstall_icon_reg_def uninst_icon_path_reg_def set_and_exists_def
        main_exe_icon_reg_def dict_get_def dict_index_def str_method_def py_str_def Let_def
        split: sum.splits option.splits)

text \<open>
  C2 fails on the code. The collector stores \<^verbatim>\<open>None\<close> under \<^verbatim>\<open>main_executable\<close> when no
  executable is chosen (lines 508 and 511), so the default \<^verbatim>\<open>?.exe\<close> of line 437 is not
  used and \<^verbatim>\<open>None.replace\<close> raises. The configuration below is the example with no
  executable chosen, and no icon: it is complete, and the call raises
  \<^verbatim>\<open>AttributeError\<close>.
\<close>

theorem no_main_executable_raises:
  "complete (example_config(''main_executable'' \<mapsto> PNone)) \<and>
   fst (generate_nsis_script_from_config example_env (example_config(''main_executable'' \<mapsto> PNone))) =
     Raised AttributeError"
proof -
  let ?config = "example_config(''main_executable'' \<mapsto> PNone)"
  have "''main_executable'' \<notin> set str_keys" "''main_executable'' \<notin> set bool_keys"
    by (simp_all add: str_keys_def bool_keys_def)
  with complete_example have c: "complete ?config"
    by (auto simp: complete_def list_all_iff)
  then have "list_all (\<lambda>k. is_str (?config k)) str_keys"
    by (simp add: complete_def)
  with derivation_keys_subset have "list_all (\<lambda>k. is_str (?config k)) derivation_keys"
    unfolding list_all_iff by blast
  then have d: "list_all (\<lambda>k. is_str (?config k)) derivation_keys" .
  have l: "?config ''selected_languages'' = Some (PList [PStr ''English'', PStr ''French''])"
    and m: "?config ''main_executable'' = Some PNone"
    and i: "set_and_exists example_env ?config ''installer_icon'' = Inr False"
    and u: "set_and_exists example_env ?config ''uninstaller_icon'' = Inr False"
    by (simp_all add: example_config_lookup set_and_exists_def dict_get_def)
  have "fst (generate_nsis_script_from_config example_env ?config) = Raised AttributeError"
    by (rule no_main_executable[of ?config _ example_env, OF d l answers_example m i u])
  with c show ?thesis by simp
qed

section \<open>The clock and the file system\<close>


lemma set_and_exists_env:
  assumes "path_exists e1 (dict_get config k PNone) = path_exists e2 (dict_get config k PNone)"
  shows "set_and_exists e1 config k = set_and_exists e2 config k"
  using assms by (simp add: set_and_exists_def Let_def)

lemma license_defines_env:
  assumes "set_and_exists e1 config ''license_file'' = set_and_exists e2 config ''license_file''"
  shows "license_defines e1 config = license_defines e2 config"
  unfolding license_defines_def assms ..

lemma icon_defines_env:
  assumes "set_and_exists e1 config ''installer_icon'' = set_and_exists e2 config ''installer_icon''"
      and "set_and_exists e1 config ''uninstaller_icon'' = set_and_exists e2 config ''uninstaller_icon''"
  shows "icon_defines e1 config = icon_defines e2 config"
  unfolding icon_defines_def assms ..

lemma uninstall_icon_reg_env:
  assumes "set_and_exists e1 config ''installer_icon'' = set_and_exists e2 config ''installer_icon''"
      and "set_and_exists e1 config ''uninstaller_icon'' = set_and_exists e2 config ''uninstaller_icon''"
      and "abspath e1 (dict_get config ''installer_icon'' PNone) =
           abspath e2 (dict_get config ''installer_icon'' PNone)"
      and "abspath e1 (dict_get config ''uninstaller_icon'' PNone) =
           abspath e2 (dict_get config ''uninstaller_icon'' PNone)"
  shows "uninstall_icon_reg e1 hive config = uninstall_icon_reg e2 hive config"
proof -
  have p: "uninst_icon_path_reg e1 config = uninst_icon_path_reg e2 config"
    unfolding uninst_icon_path_reg_def assms(1,2) ..
  have "abspath e1 icon = abspath e2 icon"
    if "uninst_icon_path_reg e2 config = Inr icon" "truthy icon" for icon
    using that assms(3,4)
    by (auto simp: uninst_icon_path_reg_def split: sum.splits bool.splits)
  then show ?thesis
    unfolding uninstall_icon_reg_def p
    by (auto split: sum.splits)
qed

lemma build_context_env:
  assumes "generation_date e1 = generation_date e2" and "current_year e1 = current_year e2"
      and "license_defines e1 config = license_defines e2 config"
      and "\<And>defs config'. license_defines e2 config = Inr (defs, config') \<Longrightarrow>
             icon_defines e1 config' = icon_defines e2 config'"
      and "\<And>defs config' hive. license_defines e2 config = Inr (defs, config') \<Longrightarrow>
             uninstall_icon_reg e1 hive config' = uninstall_icon_reg e2 hive config'"
  shows "build_context e1 config = build_context e2 config"
  unfolding build_context_def using assms
  by (auto simp: Let_def split: prod.splits sum.splits)

text \<open>
  C8, as the code has it. The result of the generator is a function of the configuration,
  of the two readings of the clock, and of what \<^verbatim>\<open>os.path.exists\<close> answers for the
  license file and the two icons and what \<^verbatim>\<open>os.path.abspath\<close> answers for the two
  icons: two calls on the same configuration, in environments that agree on these, have
  the same result, script and all.
\<close>

theorem renderer_reads_clock_and_files:
  assumes "generation_date e1 = generation_date e2"
      and "current_year e1 = current_year e2"
      and "\<forall>k \<in> {''license_file'', ''installer_icon'', ''uninstaller_icon''}.
             path_exists e1 (dict_get config k PNone) = path_exists e2 (dict_get config k PNone)"
      and "\<forall>k \<in> {''installer_icon'', ''uninstaller_icon''}.
             abspath e1 (dict_get config k PNone) = abspath e2 (dict_get config k PNone)"
  shows "generate_nsis_script_from_config e1 config = generate_nsis_script_from_config e2 config"
proof -
  have x: "set_and_exists e1 c k = set_and_exists e2 c k"
    if "k \<in> {''license_file'', ''installer_icon'', ''uninstaller_icon''}"
       "dict_get c k PNone = dict_get config k PNone" for c k
    using that assms(3) by (auto simp: set_and_exists_def Let_def)
  have l: "license_defines e1 config = license_defines e2 config"
    by (rule license_defines_env) (simp add: x)
  have same: "dict_get config' k PNone = dict_get config k PNone"
    if "license_defines e2 config = Inr (defs, config')" "k \<noteq> ''show_license_page''" for defs config' k
    using license_defines_same[OF that] by (simp add: dict_get_def)
  have i: "icon_defines e1 config' = icon_defines e2 config'"
    if "license_defines e2 config = Inr (defs, config')" for defs config'
    by (rule icon_defines_env) (simp_all add: x same[OF that])
  have u: "uninstall_icon_reg e1 hive config' = uninstall_icon_reg e2 hive config'"
    if "license_defines e2 config = Inr (defs, config')" for defs config' hive
    using assms(4) by (intro uninstall_icon_reg_env) (simp_all add: x same[OF that])
  have "build_context e1 config = build_context e2 config"
    using assms(1,2) l i u by (rule build_context_env)
  then show ?thesis
    by (simp add: generate_nsis_script_from_config_def)
qed


lemma segment_text_agree:
  "\<forall>k \<in> set (slot_names segs). c1 k = c2 k \<Longrightarrow>
     map (segment_text c1) segs = map (segment_text c2) segs"
  by (induction segs rule: slot_names.induct) simp_all

lemma scripts_differ:
  assumes "n < length segs" and "segs ! n = Slot k"
      and "\<forall>k' \<in> set (slot_names (take n segs)). c1 k' = c2 k'"
      and "segment_text c1 (Slot k) @ concat (map (segment_text c1) (drop (Suc n) segs)) \<noteq>
           segment_text c2 (Slot k) @ concat (map (segment_text c2) (drop (Suc n) segs))"
  shows "concat (map (segment_text c1) segs) \<noteq> concat (map (segment_text c2) segs)"
proof -
  from assms(1,2) have t: "segs = take n segs @ Slot k # drop (Suc n) segs"
    using id_take_nth_drop[of n segs] by simp
  have e: "concat (map (segment_text c) segs) =
          concat (map (segment_text c) (take n segs)) @
          (segment_text c (Slot k) @ concat (map (segment_text c) (drop (Suc n) segs)))" for c
    by (subst t) (simp del: segment_text.simps)
  have p: "map (segment_text c1) (take n segs) = map (segment_text c2) (take n segs)"
    using assms(3) by (rule segment_text_agree)
  show ?thesis
  proof
    assume "concat (map (segment_text c1) segs) = concat (map (segment_text c2) segs)"
    then have "segment_text c1 (Slot k) @ concat (map (segment_text c1) (drop (Suc n) segs)) =
               segment_text c2 (Slot k) @ concat (map (segment_text c2) (drop (Suc n) segs))"
      unfolding e[of c1] e[of c2] p by (rule same_append_eq[THEN iffD1])
    with assms(4) show False by (rule notE)
  qed
qed

lemma final_context_clock_value:
  "config ''current_year'' = None \<Longrightarrow>
     final_context e config lang_lines compressor defs config1 icons folder source entry ''current_year'' =
       Some (PInt (current_year e))"
  "config ''generation_date'' = None \<Longrightarrow>
     final_context e config lang_lines compressor defs config1 icons folder source entry ''generation_date'' =
       Some (PStr (generation_date e))"
  unfolding final_context_def by (simp_all add: map_add_def)

lemma NSI_TEMPLATE_generation_date:
  "5 < length NSI_TEMPLATE" "NSI_TEMPLATE ! 5 = Slot ''generation_date''"
  "slot_names (take 5 NSI_TEMPLATE) = [''current_year'']"
  unfolding NSI_TEMPLATE_def by simp_all

lemma clock_changes_script:
  "fst (generate_nsis_script_from_config example_env example_config) \<noteq>
   fst (generate_nsis_script_from_config
          (example_env\<lparr>generation_date := ''2025-01-02 03:04:06''\<rparr>) example_config)"
proof -
  let ?e2 = "example_env\<lparr>generation_date := ''2025-01-02 03:04:06''\<rparr>"
  have a2: "answers ?e2" by (auto simp: answers_def example_env_def)
  have w2: "clock_writable ?e2 example_config"
    by (rule clock_writable_2025) (simp_all add: example_config_no_clock example_env_def)
  from complete_renders[OF complete_example answers_example example_config_lookup(7) clock_writable_example]
  obtain s1 where s1: "fst (generate_nsis_script_from_config example_env example_config) = Returned (Some s1)"
    by auto
  from complete_renders[OF complete_example a2 example_config_lookup(7) w2]
  obtain s2 where s2: "fst (generate_nsis_script_from_config ?e2 example_config) = Returned (Some s2)"
    by auto
  from context_of_final[OF s1] obtain l1 c1 d1 g1 i1 f1 r1 n1
    where c1: "context_of example_env example_config =
                 final_context example_env example_config l1 c1 d1 g1 i1 f1 r1 n1"
    by blast
  from context_of_final[OF s2] obtain l2 c2 d2 g2 i2 f2 r2 n2
    where c2: "context_of ?e2 example_config =
                 final_context ?e2 example_config l2 c2 d2 g2 i2 f2 r2 n2"
    by blast
  have "concat (map (segment_text (context_of example_env example_config)) NSI_TEMPLATE) \<noteq>
        concat (map (segment_text (context_of ?e2 example_config)) NSI_TEMPLATE)"
    using NSI_TEMPLATE_generation_date(1,2)
  proof (rule scripts_differ)
    show "\<forall>k' \<in> set (slot_names (take 5 NSI_TEMPLATE)).
            context_of example_env example_config k' = context_of ?e2 example_config k'"
      unfolding NSI_TEMPLATE_generation_date(3) c1 c2
      by (simp add: final_context_clock_value example_config_no_clock example_env_def)
    show "segment_text (context_of example_env example_config) (Slot ''generation_date'') @
            concat (map (segment_text (context_of example_env example_config)) (drop (Suc 5) NSI_TEMPLATE)) \<noteq>
          segment_text (context_of ?e2 example_config) (Slot ''generation_date'') @
            concat (map (segment_text (context_of ?e2 example_config)) (drop (Suc 5) NSI_TEMPLATE))"
      unfolding c1 c2
      by (simp add: final_context_clock_value example_config_no_clock example_env_def py_str_def)
  qed
  with script_text[OF s1] script_text[OF s2] s1 s2 show ?thesis by simp
qed


lemma NSI_TEMPLATE_mui_defines:
  "66 < length NSI_TEMPLATE" "NSI_TEMPLATE ! 66 = Slot ''mui_defines''"
  "slot_names (take 66 NSI_TEMPLATE) =
     [''current_year'', ''generation_date'', ''app_name'', ''output_installer_name'',
      ''install_dir_base'', ''install_dir_name'', ''adminregistry'', ''install_path_reg_key'',
      ''branding'', ''product_version'', ''app_name'', ''publisher'', ''current_year'',
      ''publisher'', ''app_name'', ''app_version'', ''product_version'',
      ''request_execution_level'', ''set_compressor_command'']"
  "drop (Suc 66) NSI_TEMPLATE = Lit ''\<newline>'' # Lit ''\<newline>'' # drop 69 NSI_TEMPLATE"
  unfolding NSI_TEMPLATE_def by simp_all

lemma license_defines_unset:
  assumes "config ''license_file'' = Some (PStr [])"
  shows "license_defines e config =
           Inr ([''!define MUI_ABORTWARNING''], config(''show_license_page'' \<mapsto> PBool False))"
  using assms by (simp add: license_defines_def set_and_exists_def dict_get_def)

lemma files_change_script:
  "fst (generate_nsis_script_from_config example_env
          (example_config(''installer_icon'' \<mapsto> PStr ''C:/build/app.ico''))) \<noteq>
   fst (generate_nsis_script_from_config existing_env
          (example_config(''installer_icon'' \<mapsto> PStr ''C:/build/app.ico'')))"
proof -
  let ?config = "example_config(''installer_icon'' \<mapsto> PStr ''C:/build/app.ico'')"
  let ?config' = "?config(''show_license_page'' \<mapsto> PBool False)"
  have str: "list_all (\<lambda>k. is_str (?config k)) str_keys"
    using example_strings by (rule strings_update) simp
  have l: "?config ''selected_languages'' = Some (PList [PStr ''English'', PStr ''French''])"
   and m: "?config ''main_executable'' = Some (PStr ''app.exe'')"
   and f: "?config ''license_file'' = Some (PStr [])"
   and n: "?config ''current_year'' = None" "?config ''generation_date'' = None"
    by (simp_all add: example_config_lookup example_config_no_clock)
  have w: "clock_writable example_env ?config" and w': "clock_writable existing_env ?config"
    by (rule clock_writable_2025; simp add: example_config_no_clock example_env_def existing_env_def)+
  from renders_script[OF str l answers_example m w]
  obtain s1 where s1: "fst (generate_nsis_script_from_config example_env ?config) = Returned (Some s1)" ..
  from renders_script[OF str l answers_existing m w']
  obtain s2 where s2: "fst (generate_nsis_script_from_config existing_env ?config) = Returned (Some s2)" ..
  from context_of_final[OF s1] obtain g1 l1 c1 d1 i1 f1 r1 n1
    where k1: "set_compressor_command ?config = Inr c1"
              "license_defines example_env ?config = Inr (d1, g1)"
              "icon_defines example_env g1 = Inr i1"
      and x1: "context_of example_env ?config =
                 final_context example_env ?config l1 c1 d1 g1 i1 f1 r1 n1"
    by blast
  from context_of_final[OF s2] obtain g2 l2 c2 d2 i2 f2 r2 n2
    where k2: "set_compressor_command ?config = Inr c2"
              "license_defines existing_env ?config = Inr (d2, g2)"
              "icon_defines existing_env g2 = Inr i2"
      and x2: "context_of existing_env ?config =
                 final_context existing_env ?config l2 c2 d2 g2 i2 f2 r2 n2"
    by blast
  from k1(1) k2(1) have c: "c2 = c1" by simp
  from k1(2) k2(2) have d: "d1 = [''!define MUI_ABORTWARNING'']" "g1 = ?config'"
      "d2 = [''!define MUI_ABORTWARNING'']" "g2 = ?config'"
    by (simp_all add: license_defines_unset[of ?config, OF f])
  have "icon_defines example_env ?config' = Inr []"
    by (simp add: icon_defines_def set_and_exists_def dict_get_def example_env_def
          example_config_lookup)
  with k1(3) d have i1: "i1 = []" by simp
  have "icon_defines existing_env ?config' =
          Inr [''!define MUI_ICON '' @ [CHR 0x22] @ ''C:/build/app.ico'' @ [CHR 0x22],
               ''!define MUI_UNICON '' @ [CHR 0x22] @ ''C:/build/app.ico'' @ [CHR 0x22]]"
    by (simp add: icon_defines_def set_and_exists_def dict_get_def existing_env_def
          example_config_lookup py_str_def)
  with k2(3) d have i2: "i2 = [''!define MUI_ICON '' @ [CHR 0x22] @ ''C:/build/app.ico'' @ [CHR 0x22],
               ''!define MUI_UNICON '' @ [CHR 0x22] @ ''C:/build/app.ico'' @ [CHR 0x22]]"
    by simp
  have "concat (map (segment_text (context_of example_env ?config)) NSI_TEMPLATE) \<noteq>
        concat (map (segment_text (context_of existing_env ?config)) NSI_TEMPLATE)"
    using NSI_TEMPLATE_mui_defines(1,2)
  proof (rule scripts_differ)
    show "\<forall>k' \<in> set (slot_names (take 66 NSI_TEMPLATE)).
            context_of example_env ?config k' = context_of existing_env ?config k'"
      unfolding NSI_TEMPLATE_mui_defines(3) x1 x2 c
      using n
      by (simp add: final_context_clock_value
            final_context_derived final_context_config_value derived_slots_def
            example_env_def existing_env_def)
    show "segment_text (context_of example_env ?config) (Slot ''mui_defines'') @
            concat (map (segment_text (context_of example_env ?config)) (drop (Suc 66) NSI_TEMPLATE)) \<noteq>
          segment_text (context_of existing_env ?config) (Slot ''mui_defines'') @
            concat (map (segment_text (context_of existing_env ?config)) (drop (Suc 66) NSI_TEMPLATE))"
      unfolding NSI_TEMPLATE_mui_defines(4) x1 x2 final_context_text d i1 i2
      by simp
  qed
  with script_text[OF s1] script_text[OF s2] s1 s2 show ?thesis by simp
qed


theorem renderer_reads_clock_and_files_witness:
  "generate_nsis_script_from_config example_env example_config =
   generate_nsis_script_from_config
     (example_env\<lparr>path_exists := (\<lambda>v. Inr (v = PStr ''C:/elsewhere''))\<rparr>) example_config"
proof (rule renderer_reads_clock_and_files)
  let ?e2 = "example_env\<lparr>path_exists := (\<lambda>v. Inr (v = PStr ''C:/elsewhere''))\<rparr>"
  show "generation_date example_env = generation_date ?e2"
    and "current_year example_env = current_year ?e2"
    by simp_all
  show "\<forall>k \<in> {''license_file'', ''installer_icon'', ''uninstaller_icon''}.
          path_exists example_env (dict_get example_config k PNone) =
          path_exists ?e2 (dict_get example_config k PNone)"
    by (simp add: dict_get_def example_config_lookup example_env_def)
  show "\<forall>k \<in> {''installer_icon'', ''uninstaller_icon''}.
          abspath example_env (dict_get example_config k PNone) =
          abspath ?e2 (dict_get example_config k PNone)"
    by simp
qed

text \<open>
  The same configuration one second later, and the same configuration with and without
  the icon file on the disk: the scripts differ.
\<close>

theorem renderer_deterministic_counterexample:
  "fst (generate_nsis_script_from_config example_env example_config) \<noteq>
   fst (generate_nsis_script_from_config
          (example_env\<lparr>generation_date := ''2025-01-02 03:04:06''\<rparr>) example_config) \<and>
   fst (generate_nsis_script_from_config example_env
          (example_config(''installer_icon'' \<mapsto> PStr ''C:/build/app.ico''))) \<noteq>
   fst (generate_nsis_script_from_config existing_env
          (example_config(''installer_icon'' \<mapsto> PStr ''C:/build/app.ico'')))"
  using clock_changes_script files_change_script by (rule conjI)

end
